theory Spec2Isabelle
  imports Complex_Main "HOL-Library.Monad_Syntax"
begin

section \<open>Chain training drivers (chain/chain-training.cc)\<close>

text \<open>
  The four drivers of chain-training.cc are embedded as functions of the options, the
  supervision, the score matrix and the two optional gradient buffers. A buffer pointer
  that may be NULL is an \<open>option\<close>; the out-parameters are the fields of the returned
  record; an abort (a failed \<open>KALDI_ASSERT\<close>) is the value \<open>None\<close>.

  The forward-backward computations the drivers call (DenominatorComputation,
  NumeratorComputation, GenericNumeratorComputation, DenominatorSmbrComputation) are
  parameters of the model, collected in the record \<open>computations\<close>; they are assumed to
  return. The diagnostic block that logs per-frame derivative norms runs only at verbose
  level 1 or more and writes nothing but the log; the model is the driver at the default
  verbose level 0. The two buffers are assumed not to alias each other.
\<close>

subsection \<open>BaseFloat\<close>

text \<open>
  Modelled from the spec: \<open>BaseFloat\<close> (base/kaldi-types.h, a C float) is not declared
  under src/. The spec speaks of real-valued scores, of scores that contain an infinity
  and of results that are not finite, so a float is a real number or one of the IEEE-754
  special values: the two infinities and NaN, with the IEEE rules for them. Rounding,
  overflow of finite operations and the sign of zero are not modelled.
\<close>

datatype BaseFloat = Fin real | PInf | NInf | NaN

fun fneg :: "BaseFloat \<Rightarrow> BaseFloat" where
  "fneg (Fin x) = Fin (- x)"
| "fneg PInf = NInf"
| "fneg NInf = PInf"
| "fneg NaN = NaN"

fun fadd :: "BaseFloat \<Rightarrow> BaseFloat \<Rightarrow> BaseFloat" where
  "fadd (Fin x) (Fin y) = Fin (x + y)"
| "fadd (Fin x) PInf = PInf"
| "fadd (Fin x) NInf = NInf"
| "fadd PInf (Fin y) = PInf"
| "fadd PInf PInf = PInf"
| "fadd PInf NInf = NaN"
| "fadd NInf (Fin y) = NInf"
| "fadd NInf PInf = NaN"
| "fadd NInf NInf = NInf"
| "fadd NaN b = NaN"
| "fadd a NaN = NaN"

definition fsub :: "BaseFloat \<Rightarrow> BaseFloat \<Rightarrow> BaseFloat" where
  "fsub a b = fadd a (fneg b)"

fun fmul :: "BaseFloat \<Rightarrow> BaseFloat \<Rightarrow> BaseFloat" where
  "fmul (Fin x) (Fin y) = Fin (x * y)"
| "fmul (Fin x) PInf = (if x = 0 then NaN else if 0 < x then PInf else NInf)"
| "fmul (Fin x) NInf = (if x = 0 then NaN else if 0 < x then NInf else PInf)"
| "fmul PInf (Fin y) = (if y = 0 then NaN else if 0 < y then PInf else NInf)"
| "fmul NInf (Fin y) = (if y = 0 then NaN else if 0 < y then NInf else PInf)"
| "fmul PInf PInf = PInf"
| "fmul PInf NInf = NInf"
| "fmul NInf PInf = NInf"
| "fmul NInf NInf = PInf"
| "fmul NaN b = NaN"
| "fmul a NaN = NaN"

text \<open>The comparison \<open>==\<close> of two floats: NaN equals nothing, itself included.\<close>

fun f_eq :: "BaseFloat \<Rightarrow> BaseFloat \<Rightarrow> bool" where
  "f_eq (Fin x) (Fin y) = (x = y)"
| "f_eq PInf PInf = True"
| "f_eq NInf NInf = True"
| "f_eq a b = False"

fun fexp :: "BaseFloat \<Rightarrow> BaseFloat" where
  "fexp (Fin x) = Fin (exp x)"
| "fexp PInf = PInf"
| "fexp NInf = Fin 0"
| "fexp NaN = NaN"

text \<open>
  The implicit conversion of an \<open>int32\<close> operand in a float expression, and the
  product of two \<open>int32\<close> values, wrapping around at 32 bits.
\<close>

definition int32_to_float :: "int \<Rightarrow> BaseFloat" where
  "int32_to_float i = Fin (of_int i)"

definition int32_mul :: "int \<Rightarrow> int \<Rightarrow> int" where
  "int32_mul a b = (a * b + 2147483648) mod 4294967296 - 2147483648"

definition fsum :: "BaseFloat list \<Rightarrow> BaseFloat" where
  "fsum xs = foldl fadd (Fin 0) xs"

subsection \<open>Matrices, vectors and index arrays\<close>

text \<open>
  Modelled from the spec: the matrix library (CuMatrixBase, CuMatrix, CuVector, CuArray
  and GeneralMatrix of cudamatrix/ and matrix/) is not under src/. A matrix is its two
  dimensions and its elements by row and column; only the elements inside the
  dimensions are meaningful. An operation on two matrices aborts when their dimensions
  differ ("shape or invariant violation ... fails the call"). The spec gives the
  meaning of the operations: \<open>AddMat\<close> adds a scaled matrix into the receiver,
  \<open>TraceMatMat(X, X, kTrans)\<close> is the squared Frobenius norm, \<open>CopyCols\<close> with index
  \<open>-1\<close> yields a zero column, \<open>CopyColsFromVec\<close> broadcasts a per-row value into the
  selected columns. Every definition of this subsection is part of that model.
\<close>

record CuMatrix =
  NumRows :: nat
  NumCols :: nat
  elem :: "nat \<Rightarrow> nat \<Rightarrow> BaseFloat"

record CuVector =
  Dim :: nat
  velem :: "nat \<Rightarrow> BaseFloat"

definition same_dim :: "CuMatrix \<Rightarrow> CuMatrix \<Rightarrow> bool" where
  "same_dim A B = (NumRows A = NumRows B \<and> NumCols A = NumCols B)"

text \<open>
  Modelled from the spec: CuMatrix's constructor and \<open>Resize\<close> with \<open>kSetZero\<close>, a
  zero matrix of the given size; and \<open>SetZero\<close>, which keeps the size.
\<close>

definition Resize :: "nat \<Rightarrow> nat \<Rightarrow> CuMatrix" where
  "Resize r c = \<lparr>NumRows = r, NumCols = c, elem = (\<lambda>i j. Fin 0)\<rparr>"

definition SetZero :: "CuMatrix \<Rightarrow> CuMatrix" where
  "SetZero M = M\<lparr>elem := (\<lambda>i j. Fin 0)\<rparr>"

text \<open>
  Modelled from the spec: \<open>this->AddMat(alpha, A)\<close> adds \<open>alpha\<close> times \<open>A\<close> into the
  receiver, the first argument here; \<open>Scale\<close> multiplies every element.
\<close>

definition AddMat :: "CuMatrix \<Rightarrow> BaseFloat \<Rightarrow> CuMatrix \<Rightarrow> CuMatrix option" where
  "AddMat this alpha A =
     (if same_dim this A
      then Some (this\<lparr>elem := (\<lambda>i j. fadd (elem this i j) (fmul alpha (elem A i j)))\<rparr>)
      else None)"

definition Scale :: "CuMatrix \<Rightarrow> BaseFloat \<Rightarrow> CuMatrix" where
  "Scale this alpha = this\<lparr>elem := (\<lambda>i j. fmul alpha (elem this i j))\<rparr>"

text \<open>
  Modelled from the spec: \<open>this->CopyFromMat(src)\<close>, also \<open>src.CopyToMat(this)\<close> of a
  GeneralMatrix; \<open>TraceMatMat(A, B, kTrans)\<close>, the sum of the products of the elements
  at the same place; \<open>ApplyExp\<close> and \<open>Sum\<close>.
\<close>

definition CopyFromMat :: "CuMatrix \<Rightarrow> CuMatrix \<Rightarrow> CuMatrix option" where
  "CopyFromMat this src =
     (if same_dim this src then Some (this\<lparr>elem := elem src\<rparr>) else None)"

definition TraceMatMat_trans :: "CuMatrix \<Rightarrow> CuMatrix \<Rightarrow> BaseFloat option" where
  "TraceMatMat_trans A B =
     (if same_dim A B
      then Some (fsum (concat (map (\<lambda>i. map (\<lambda>j. fmul (elem A i j) (elem B i j))
                                              [0..<NumCols A]) [0..<NumRows A])))
      else None)"

definition ApplyExp :: "CuMatrix \<Rightarrow> CuMatrix" where
  "ApplyExp M = M\<lparr>elem := (\<lambda>i j. fexp (elem M i j))\<rparr>"

definition Sum :: "CuMatrix \<Rightarrow> BaseFloat" where
  "Sum M = fsum (concat (map (\<lambda>i. map (\<lambda>j. elem M i j) [0..<NumCols M]) [0..<NumRows M]))"

text \<open>
  Modelled from the spec: \<open>this->CopyCols(src, indices)\<close> with \<open>src\<close> a different
  matrix. Column \<open>c\<close> of the receiver becomes column \<open>indices[c]\<close> of \<open>src\<close>, or zero
  when \<open>indices[c] < 0\<close>. An index beyond the columns of \<open>src\<close> reads outside the row
  and is an abort here.
\<close>

definition CopyCols :: "CuMatrix \<Rightarrow> CuMatrix \<Rightarrow> int list \<Rightarrow> CuMatrix option" where
  "CopyCols this src indices =
     (if length indices = NumCols this \<and> NumRows this = NumRows src
         \<and> list_all (\<lambda>i. i < int (NumCols src)) indices
      then Some (this\<lparr>elem := (\<lambda>r c. if c < NumCols this
                                      then (if indices ! c < 0 then Fin 0
                                            else elem src r (nat (indices ! c)))
                                      else elem this r c)\<rparr>)
      else None)"

text \<open>
  Modelled from the spec: \<open>m.CopyCols(m, indices)\<close>, the receiver being its own source.
  Each row is rewritten column by column from left to right, as on the CPU, and a
  column read after it was written gives the new value.
\<close>

definition CopyCols_row :: "int list \<Rightarrow> nat \<Rightarrow> (nat \<Rightarrow> BaseFloat) \<Rightarrow> (nat \<Rightarrow> BaseFloat)" where
  "CopyCols_row indices n row =
     fold (\<lambda>c rw. rw(c := (if indices ! c < 0 then Fin 0 else rw (nat (indices ! c)))))
          [0..<n] row"

definition CopyCols_self :: "CuMatrix \<Rightarrow> int list \<Rightarrow> CuMatrix option" where
  "CopyCols_self this indices =
     (if length indices = NumCols this
         \<and> list_all (\<lambda>i. i < int (NumCols this)) indices
      then Some (this\<lparr>elem := (\<lambda>r. CopyCols_row indices (NumCols this) (elem this r))\<rparr>)
      else None)"

text \<open>
  Modelled from the spec: \<open>v.AddColSumMat(alpha, M, beta)\<close> sets \<open>v(r)\<close> to \<open>alpha\<close>
  times the sum of row \<open>r\<close> of \<open>M\<close> plus \<open>beta\<close> times \<open>v(r)\<close>.
\<close>

definition AddColSumMat :: "CuVector \<Rightarrow> BaseFloat \<Rightarrow> CuMatrix \<Rightarrow> BaseFloat \<Rightarrow> CuVector option" where
  "AddColSumMat v alpha M beta =
     (if Dim v = NumRows M
      then Some (v\<lparr>velem := (\<lambda>r. fadd (fmul alpha (fsum (map (elem M r) [0..<NumCols M])))
                                      (fmul beta (velem v r)))\<rparr>)
      else None)"

text \<open>
  Modelled from the spec: \<open>this->CopyColsFromVec(v, indices)\<close> broadcasts the sum back
  into each silence column. Every column \<open>c\<close> with \<open>indices[c] >= 0\<close> becomes the
  vector \<open>v\<close>; the other columns keep their values.
\<close>

definition CopyColsFromVec :: "CuMatrix \<Rightarrow> CuVector \<Rightarrow> int list \<Rightarrow> CuMatrix option" where
  "CopyColsFromVec this v indices =
     (if Dim v = NumRows this \<and> length indices = NumCols this
      then Some (this\<lparr>elem := (\<lambda>r c. if c < NumCols this \<and> 0 \<le> indices ! c
                                      then velem v r else elem this r c)\<rparr>)
      else None)"

subsection \<open>Options, supervision and the forward-backward computations\<close>

record ChainTrainingOptions =
  l2_regularize :: BaseFloat
  leaky_hmm_coefficient :: BaseFloat
  xent_regularize :: BaseFloat
  use_smbr_objective :: bool
  exclude_silence :: bool
  one_silence_class :: bool
  silence_pdfs_str :: string
  mmi_factor :: BaseFloat
  smbr_factor :: BaseFloat
  norm_regularize :: bool

text \<open>
  Modelled from the spec: \<open>Supervision\<close> (chain/chain-supervision.h) is not declared
  under src/. These are the fields the drivers read themselves: the weight, the two
  counts, the tag of end-to-end supervision and the target posteriors of KL mode.
\<close>

record Supervision =
  weight :: BaseFloat
  num_sequences :: int
  frames_per_sequence :: int
  e2e :: bool
  numerator_post_targets :: CuMatrix

text \<open>
  The results of the forward-backward objects for one call. A \<open>Backward\<close> writes through
  a \<open>CuMatrixBase\<close> pointer: it may change every element of the buffer and cannot change
  its dimensions, so it is given the buffer and returns the new elements (with the
  boolean it returns, where it returns one). The SMBR computation is constructed from
  the accuracy posteriors, its first argument here.
\<close>

record computations =
  den_Forward :: BaseFloat
  den_Backward :: "BaseFloat \<Rightarrow> CuMatrix \<Rightarrow> bool \<times> (nat \<Rightarrow> nat \<Rightarrow> BaseFloat)"
  num_Forward :: BaseFloat
  num_Backward :: "CuMatrix \<Rightarrow> (nat \<Rightarrow> nat \<Rightarrow> BaseFloat)"
  gen_Forward :: BaseFloat
  gen_Backward :: "CuMatrix \<Rightarrow> bool \<times> (nat \<Rightarrow> nat \<Rightarrow> BaseFloat)"
  ForwardSmbr :: "CuMatrix \<Rightarrow> BaseFloat \<times> BaseFloat"
  BackwardSmbr :: "CuMatrix \<Rightarrow> BaseFloat \<Rightarrow> CuMatrix \<Rightarrow> bool \<times> (nat \<Rightarrow> nat \<Rightarrow> BaseFloat)"

text \<open>The out-parameters of a driver.\<close>

record chain_result =
  objf :: BaseFloat
  l2_term :: BaseFloat
  tot_weight :: BaseFloat
  nnet_output_deriv :: "CuMatrix option"
  xent_output_deriv :: "CuMatrix option"

record smbr_result = chain_result +
  mmi_objf :: BaseFloat

text \<open>The local variables and buffers of a driver between two of its blocks.\<close>

record chain_state =
  st_objf :: BaseFloat
  st_weight :: BaseFloat
  st_denominator_ok :: bool
  st_numerator_ok :: bool
  st_deriv :: "CuMatrix option"
  st_xent :: "CuMatrix option"

record smbr_state = chain_state +
  st_mmi_objf :: BaseFloat

subsection \<open>Blocks shared by the drivers\<close>

text \<open>
  \<open>*weight = supervision.weight * supervision.num_sequences *
  supervision.frames_per_sequence\<close>: a float times an \<open>int32\<close> times an \<open>int32\<close>,
  evaluated from the left.
\<close>

definition compute_weight :: "Supervision \<Rightarrow> BaseFloat" where
  "compute_weight supervision =
     fmul (fmul (weight supervision) (int32_to_float (num_sequences supervision)))
          (int32_to_float (frames_per_sequence supervision))"

text \<open>
  \<open>bool ok = true; if (nnet_output_deriv) ok = denominator.Backward(-supervision.weight,
  nnet_output_deriv);\<close> with the scale as argument.
\<close>

definition denominator_backward ::
  "computations \<Rightarrow> BaseFloat \<Rightarrow> CuMatrix option \<Rightarrow> bool \<times> CuMatrix option" where
  "denominator_backward cmp scale deriv =
     (case deriv of
        None \<Rightarrow> (True, None)
      | Some D \<Rightarrow> (fst (den_Backward cmp scale D),
                   Some (D\<lparr>elem := snd (den_Backward cmp scale D)\<rparr>)))"

text \<open>
  The block "inf or NaN detected, or denominator computation returned false" of
  ComputeChainObjfAndDeriv and ComputeKLObjfAndDeriv.
\<close>

definition failure_block :: "chain_state \<Rightarrow> chain_state" where
  "failure_block s =
     (if \<not> f_eq (fsub (st_objf s) (st_objf s)) (Fin 0) \<or> \<not> st_denominator_ok s
      then s\<lparr>st_deriv := map_option SetZero (st_deriv s),
             st_xent := map_option SetZero (st_xent s),
             st_objf := fmul (Fin (- 10)) (st_weight s)\<rparr>
      else s)"

text \<open>The same block of ComputeChainObjfAndDerivE2e, which also tests \<open>numerator_ok\<close>.\<close>

definition failure_block_e2e :: "chain_state \<Rightarrow> chain_state" where
  "failure_block_e2e s =
     (if \<not> f_eq (fsub (st_objf s) (st_objf s)) (Fin 0) \<or> \<not> st_denominator_ok s
         \<or> \<not> st_numerator_ok s
      then s\<lparr>st_deriv := map_option SetZero (st_deriv s),
             st_xent := map_option SetZero (st_xent s),
             st_objf := fmul (Fin (- 10)) (st_weight s)\<rparr>
      else s)"

text \<open>
  The L2 penalty and its derivative: \<open>scale = supervision.weight * opts.l2_regularize\<close>,
  \<open>-0.5 * scale * TraceMatMat(nnet_output, nnet_output, kTrans)\<close> and
  \<open>nnet_output_deriv->AddMat(-1.0 * scale, nnet_output)\<close>.
\<close>

definition l2_penalty ::
  "ChainTrainingOptions \<Rightarrow> Supervision \<Rightarrow> CuMatrix \<Rightarrow> CuMatrix option
     \<Rightarrow> (BaseFloat \<times> CuMatrix option) option" where
  "l2_penalty opts supervision X deriv =
     (let scale = fmul (weight supervision) (l2_regularize opts) in
      do {
        tr \<leftarrow> TraceMatMat_trans X X;
        d \<leftarrow> (case deriv of
                None \<Rightarrow> Some None
              | Some D \<Rightarrow> map_option Some (AddMat D (fmul (Fin (- 1)) scale) X));
        Some (fmul (fmul (Fin (- (1 / 2))) scale) tr, d)
      })"

text \<open>The last block of ComputeChainObjfAndDeriv and ComputeKLObjfAndDeriv.\<close>

definition l2_block ::
  "ChainTrainingOptions \<Rightarrow> Supervision \<Rightarrow> CuMatrix \<Rightarrow> chain_state \<Rightarrow> chain_result option" where
  "l2_block opts supervision X s =
     (if f_eq (l2_regularize opts) (Fin 0)
      then Some \<lparr>objf = st_objf s, l2_term = Fin 0, tot_weight = st_weight s,
                 nnet_output_deriv = st_deriv s, xent_output_deriv = st_xent s\<rparr>
      else do {
        (l2, d) \<leftarrow> l2_penalty opts supervision X (st_deriv s);
        Some \<lparr>objf = st_objf s, l2_term = l2, tot_weight = st_weight s,
              nnet_output_deriv = d, xent_output_deriv = st_xent s\<rparr>
      })"

text \<open>
  The last block of ComputeChainObjfAndDerivE2e: \<open>*l2_term = 0.0; if (opts.l2_regularize
  != 0.0 && numerator_ok) ...\<close>.
\<close>

definition l2_block_e2e ::
  "ChainTrainingOptions \<Rightarrow> Supervision \<Rightarrow> CuMatrix \<Rightarrow> chain_state \<Rightarrow> chain_result option" where
  "l2_block_e2e opts supervision X s =
     (if \<not> f_eq (l2_regularize opts) (Fin 0) \<and> st_numerator_ok s
      then do {
        (l2, d) \<leftarrow> l2_penalty opts supervision X (st_deriv s);
        Some \<lparr>objf = st_objf s, l2_term = l2, tot_weight = st_weight s,
              nnet_output_deriv = d, xent_output_deriv = st_xent s\<rparr>
      }
      else Some \<lparr>objf = st_objf s, l2_term = Fin 0, tot_weight = st_weight s,
                 nnet_output_deriv = st_deriv s, xent_output_deriv = st_xent s\<rparr>)"

subsection \<open>ComputeChainObjfAndDerivE2e\<close>

text \<open>
  The function up to \<open>*objf = num_logprob_weighted - den_logprob_weighted\<close>. The
  numerator's \<open>Backward\<close> runs only after a finite forward log-probability, into the
  cross-entropy buffer when there is one and else into the gradient buffer.
\<close>

definition E2e_compute ::
  "computations \<Rightarrow> Supervision \<Rightarrow> CuMatrix \<Rightarrow> CuMatrix option \<Rightarrow> CuMatrix option
     \<Rightarrow> chain_state option" where
  "E2e_compute cmp supervision X deriv xent =
     (let wt = compute_weight supervision;
          d0 = map_option SetZero deriv;
          den_logprob_weighted = fmul (weight supervision) (den_Forward cmp);
          (denominator_ok, d1) = denominator_backward cmp (fneg (weight supervision)) d0;
          x0 = map_option (\<lambda>_. Resize (NumRows X) (NumCols X)) xent;
          num_logprob_weighted = gen_Forward cmp;
          forward_ok = f_eq (fsub num_logprob_weighted num_logprob_weighted) (Fin 0)
      in do {
        (numerator_ok, d2, x1) \<leftarrow>
          (if x0 \<noteq> None \<and> forward_ok then
             (let Xe = the x0;
                  Xe' = Xe\<lparr>elem := snd (gen_Backward cmp Xe)\<rparr> in
              do {
                d \<leftarrow> (case d1 of
                        None \<Rightarrow> Some None
                      | Some D \<Rightarrow> map_option Some (AddMat D (Fin 1) Xe'));
                Some (fst (gen_Backward cmp Xe), d, Some Xe')
              })
           else if d1 \<noteq> None \<and> forward_ok then
             (let D = the d1 in
              Some (fst (gen_Backward cmp D),
                    Some (D\<lparr>elem := snd (gen_Backward cmp D)\<rparr>), x0))
           else Some (forward_ok, d1, x0));
        Some \<lparr>st_objf = fsub num_logprob_weighted den_logprob_weighted,
              st_weight = wt,
              st_denominator_ok = denominator_ok,
              st_numerator_ok = numerator_ok,
              st_deriv = d2, st_xent = x1\<rparr>
      })"

definition ComputeChainObjfAndDerivE2e ::
  "ChainTrainingOptions \<Rightarrow> computations \<Rightarrow> Supervision \<Rightarrow> CuMatrix
     \<Rightarrow> CuMatrix option \<Rightarrow> CuMatrix option \<Rightarrow> chain_result option" where
  "ComputeChainObjfAndDerivE2e opts cmp supervision X deriv xent =
     do {
       s \<leftarrow> E2e_compute cmp supervision X deriv xent;
       l2_block_e2e opts supervision X (failure_block_e2e s)
     }"

subsection \<open>ComputeKLObjfAndDeriv\<close>

text \<open>
  The three assertions, then the function up to \<open>*weight = ...\<close>. The target
  posteriors are copied into a zeroed matrix of the size of the scores.
\<close>

definition KL_compute ::
  "computations \<Rightarrow> Supervision \<Rightarrow> CuMatrix \<Rightarrow> CuMatrix option \<Rightarrow> CuMatrix option
     \<Rightarrow> chain_state option" where
  "KL_compute cmp supervision X deriv xent =
     (if \<not> 0 < NumRows (numerator_post_targets supervision) then None
      else if int (NumRows X) \<noteq> int32_mul (num_sequences supervision) (frames_per_sequence supervision)
      then None
      else if NumRows (numerator_post_targets supervision) \<noteq> NumRows X then None
      else
        (let d0 = map_option SetZero deriv;
             den_logprob_weighted = fmul (weight supervision) (den_Forward cmp);
             (ok, d1) = denominator_backward cmp (fneg (weight supervision)) d0
         in do {
           (d2, x1) \<leftarrow>
             (if xent \<noteq> None then
                do {
                  xa \<leftarrow> CopyFromMat (Resize (NumRows X) (NumCols X))
                                     (numerator_post_targets supervision);
                  let xb = Scale xa (weight supervision);
                  d \<leftarrow> (case d1 of
                          None \<Rightarrow> Some None
                        | Some D \<Rightarrow> map_option Some (AddMat D (Fin 1) xb));
                  Some (d, Some xb)
                }
              else if d1 \<noteq> None then
                do {
                  numerator_post \<leftarrow> CopyFromMat (Resize (NumRows X) (NumCols X))
                                                 (numerator_post_targets supervision);
                  D' \<leftarrow> AddMat (the d1) (weight supervision) numerator_post;
                  Some (Some D', None)
                }
              else Some (d1, None));
           Some \<lparr>st_objf = fneg den_logprob_weighted,
                 st_weight = compute_weight supervision,
                 st_denominator_ok = ok,
                 st_numerator_ok = True,
                 st_deriv = d2, st_xent = x1\<rparr>
         }))"

definition ComputeKLObjfAndDeriv ::
  "ChainTrainingOptions \<Rightarrow> computations \<Rightarrow> Supervision \<Rightarrow> CuMatrix
     \<Rightarrow> CuMatrix option \<Rightarrow> CuMatrix option \<Rightarrow> chain_result option" where
  "ComputeKLObjfAndDeriv opts cmp supervision X deriv xent =
     do {
       s \<leftarrow> KL_compute cmp supervision X deriv xent;
       l2_block opts supervision X (failure_block s)
     }"

subsection \<open>ComputeChainObjfAndDeriv\<close>

text \<open>The path for \<open>supervision.e2e == false\<close>, up to \<open>*weight = ...\<close>.\<close>

definition Chain_compute ::
  "computations \<Rightarrow> Supervision \<Rightarrow> CuMatrix \<Rightarrow> CuMatrix option \<Rightarrow> CuMatrix option
     \<Rightarrow> chain_state option" where
  "Chain_compute cmp supervision X deriv xent =
     (let d0 = map_option SetZero deriv;
          den_logprob_weighted = fmul (weight supervision) (den_Forward cmp);
          (ok, d1) = denominator_backward cmp (fneg (weight supervision)) d0;
          x0 = map_option (\<lambda>_. Resize (NumRows X) (NumCols X)) xent;
          num_logprob_weighted = num_Forward cmp
      in do {
        (d2, x1) \<leftarrow>
          (if x0 \<noteq> None then
             (let Xe = the x0;
                  Xe' = Xe\<lparr>elem := num_Backward cmp Xe\<rparr> in
              do {
                d \<leftarrow> (case d1 of
                        None \<Rightarrow> Some None
                      | Some D \<Rightarrow> map_option Some (AddMat D (Fin 1) Xe'));
                Some (d, Some Xe')
              })
           else if d1 \<noteq> None then
             (let D = the d1 in Some (Some (D\<lparr>elem := num_Backward cmp D\<rparr>), x0))
           else Some (d1, x0));
        Some \<lparr>st_objf = fsub num_logprob_weighted den_logprob_weighted,
              st_weight = compute_weight supervision,
              st_denominator_ok = ok,
              st_numerator_ok = True,
              st_deriv = d2, st_xent = x1\<rparr>
      })"

definition ComputeChainObjfAndDeriv ::
  "ChainTrainingOptions \<Rightarrow> computations \<Rightarrow> Supervision \<Rightarrow> CuMatrix
     \<Rightarrow> CuMatrix option \<Rightarrow> CuMatrix option \<Rightarrow> chain_result option" where
  "ComputeChainObjfAndDeriv opts cmp supervision X deriv xent =
     (if e2e supervision then ComputeChainObjfAndDerivE2e opts cmp supervision X deriv xent
      else do {
        s \<leftarrow> Chain_compute cmp supervision X deriv xent;
        l2_block opts supervision X (failure_block s)
      })"

subsection \<open>ComputeChainSmbrObjfAndDeriv\<close>

text \<open>
  The numerator block: \<open>num_posteriors\<close> is constructed zeroed with the size of the
  scores, \<open>numerator.Backward\<close> writes the posteriors into it, and the copies into the
  two buffers are made. The result is \<open>num_logprob_weighted\<close>, \<open>num_posteriors\<close> and
  the two buffers.
\<close>

definition Smbr_numerator ::
  "ChainTrainingOptions \<Rightarrow> computations \<Rightarrow> CuMatrix \<Rightarrow> CuMatrix option \<Rightarrow> CuMatrix option
     \<Rightarrow> (BaseFloat \<times> CuMatrix \<times> CuMatrix option \<times> CuMatrix option) option" where
  "Smbr_numerator opts cmp X deriv xent =
     (let np0 = Resize (NumRows X) (NumCols X);
          num_logprob_weighted = fmul (mmi_factor opts) (num_Forward cmp);
          num_posteriors = np0\<lparr>elem := num_Backward cmp np0\<rparr>
      in do {
        d1 \<leftarrow> (if deriv \<noteq> None \<and> \<not> f_eq (mmi_factor opts) (Fin 0)
               then do {
                 D \<leftarrow> CopyFromMat (the deriv) num_posteriors;
                 Some (Some (Scale D (mmi_factor opts)))
               }
               else Some deriv);
        x1 \<leftarrow> (case xent of
                 None \<Rightarrow> Some None
               | Some Xe \<Rightarrow> map_option Some (CopyFromMat Xe num_posteriors));
        Some (num_logprob_weighted, num_posteriors, d1, x1)
      })"

text \<open>
  The silence block: the posteriors that the SMBR denominator takes as accuracies.
\<close>

definition Smbr_silence ::
  "ChainTrainingOptions \<Rightarrow> CuMatrix \<Rightarrow> int list option \<Rightarrow> CuMatrix \<Rightarrow> CuMatrix option" where
  "Smbr_silence opts X sil_indices num_posteriors =
     (if sil_indices \<noteq> None \<and> exclude_silence opts then
        CopyCols_self num_posteriors (the sil_indices)
      else if sil_indices \<noteq> None \<and> one_silence_class opts then
        do {
          silence_post \<leftarrow> CopyCols (Resize (NumRows X) (NumCols X)) num_posteriors
                                     (the sil_indices);
          total_silence_post \<leftarrow> AddColSumMat \<lparr>Dim = NumRows X, velem = (\<lambda>r. Fin 0)\<rparr>
                                              (Fin 1) silence_post (Fin 0);
          CopyColsFromVec num_posteriors total_silence_post (the sil_indices)
        }
      else Some num_posteriors)"

text \<open>
  The denominator block, from the construction of \<open>DenominatorSmbrComputation\<close> to
  \<open>*weight = ...\<close>, given the results of the two blocks before.
\<close>

definition Smbr_denominator ::
  "ChainTrainingOptions \<Rightarrow> computations \<Rightarrow> Supervision \<Rightarrow> BaseFloat \<Rightarrow> CuMatrix
     \<Rightarrow> CuMatrix option \<Rightarrow> CuMatrix option \<Rightarrow> smbr_state" where
  "Smbr_denominator opts cmp supervision num_logprob_weighted acc_posteriors d1 x1 =
     (let smbr_objf = fst (ForwardSmbr cmp acc_posteriors);
          den_logprob_negated = snd (ForwardSmbr cmp acc_posteriors);
          (ok, d2) =
            (case d1 of
               None \<Rightarrow> (True, None)
             | Some D \<Rightarrow>
                 (let D0 = (if f_eq (mmi_factor opts) (Fin 0) then SetZero D else D) in
                  (fst (BackwardSmbr cmp acc_posteriors (weight supervision) D0),
                   Some (D0\<lparr>elem := snd (BackwardSmbr cmp acc_posteriors
                                                        (weight supervision) D0)\<rparr>))))
      in \<lparr>st_objf = fmul (weight supervision) smbr_objf,
          st_weight = compute_weight supervision,
          st_denominator_ok = ok,
          st_numerator_ok = True,
          st_deriv = d2, st_xent = x1,
          st_mmi_objf = fadd (fmul (weight supervision) den_logprob_negated)
                             num_logprob_weighted\<rparr>)"

definition Smbr_compute ::
  "ChainTrainingOptions \<Rightarrow> computations \<Rightarrow> Supervision \<Rightarrow> CuMatrix
     \<Rightarrow> CuMatrix option \<Rightarrow> CuMatrix option \<Rightarrow> int list option \<Rightarrow> smbr_state option" where
  "Smbr_compute opts cmp supervision X deriv xent sil_indices =
     do {
       (num_logprob_weighted, num_posteriors, d1, x1) \<leftarrow> Smbr_numerator opts cmp X deriv xent;
       acc_posteriors \<leftarrow> Smbr_silence opts X sil_indices num_posteriors;
       Some (Smbr_denominator opts cmp supervision num_logprob_weighted acc_posteriors d1 x1)
     }"

text \<open>The block "inf or NaN detected, or denominator computation returned false".\<close>

definition failure_block_smbr :: "ChainTrainingOptions \<Rightarrow> smbr_state \<Rightarrow> smbr_state" where
  "failure_block_smbr opts s =
     (let total_objf = fadd (st_objf s) (st_mmi_objf s) in
      if \<not> f_eq (fsub total_objf total_objf) (Fin 0) \<or> \<not> st_denominator_ok s
      then s\<lparr>st_deriv := map_option SetZero (st_deriv s),
             st_xent := map_option SetZero (st_xent s),
             st_mmi_objf := fmul (fmul (fneg (mmi_factor opts)) (Fin 10)) (st_weight s),
             st_objf := Fin 0\<rparr>
      else s)"

text \<open>
  The last block: no penalty, the L2 penalty, or with \<open>norm_regularize\<close> the penalty
  \<open>-scale * exp_nnet_output.Sum()\<close> with derivative \<open>-1.0 * scale * exp_nnet_output\<close>.
\<close>

definition l2_block_smbr ::
  "ChainTrainingOptions \<Rightarrow> Supervision \<Rightarrow> CuMatrix \<Rightarrow> smbr_state \<Rightarrow> smbr_result option" where
  "l2_block_smbr opts supervision X s =
     (if f_eq (l2_regularize opts) (Fin 0)
      then Some \<lparr>objf = st_objf s, l2_term = Fin 0, tot_weight = st_weight s,
                 nnet_output_deriv = st_deriv s, xent_output_deriv = st_xent s,
                 mmi_objf = st_mmi_objf s\<rparr>
      else if \<not> norm_regularize opts
      then do {
        (l2, d) \<leftarrow> l2_penalty opts supervision X (st_deriv s);
        Some \<lparr>objf = st_objf s, l2_term = l2, tot_weight = st_weight s,
              nnet_output_deriv = d, xent_output_deriv = st_xent s,
              mmi_objf = st_mmi_objf s\<rparr>
      }
      else
        (let scale = fmul (weight supervision) (l2_regularize opts);
             exp_nnet_output = ApplyExp X in
         do {
           d \<leftarrow> (case st_deriv s of
                   None \<Rightarrow> Some None
                 | Some D \<Rightarrow> map_option Some (AddMat D (fmul (Fin (- 1)) scale)
                                                       exp_nnet_output));
           Some \<lparr>objf = st_objf s, l2_term = fmul (fneg scale) (Sum exp_nnet_output),
                 tot_weight = st_weight s,
                 nnet_output_deriv = d, xent_output_deriv = st_xent s,
                 mmi_objf = st_mmi_objf s\<rparr>
         }))"

definition ComputeChainSmbrObjfAndDeriv ::
  "ChainTrainingOptions \<Rightarrow> computations \<Rightarrow> Supervision \<Rightarrow> CuMatrix
     \<Rightarrow> CuMatrix option \<Rightarrow> CuMatrix option \<Rightarrow> int list option \<Rightarrow> smbr_result option" where
  "ComputeChainSmbrObjfAndDeriv opts cmp supervision X deriv xent sil_indices =
     do {
       s \<leftarrow> Smbr_compute opts cmp supervision X deriv xent sil_indices;
       l2_block_smbr opts supervision X (failure_block_smbr opts s)
     }"

subsection \<open>Notions used in the statements\<close>

text \<open>A finite float: neither an infinity nor NaN.\<close>

definition is_finite :: "BaseFloat \<Rightarrow> bool" where
  "is_finite x = (case x of Fin v \<Rightarrow> True | PInf \<Rightarrow> False | NInf \<Rightarrow> False | NaN \<Rightarrow> False)"

text \<open>
  A value inside the range of a C float: a real number of magnitude at most \<open>FLT_MAX\<close>.
  The model does not round, so a product of the model can exceed the range where the
  float product of the code overflows to an infinity; a statement about results without
  failure asks for the values in the range.
\<close>

definition FLT_MAX :: real where
  "FLT_MAX = 340282346638528859811704183484516925440"

definition in_float_range :: "BaseFloat \<Rightarrow> bool" where
  "in_float_range x =
     (case x of Fin v \<Rightarrow> \<bar>v\<bar> \<le> FLT_MAX | PInf \<Rightarrow> False | NInf \<Rightarrow> False | NaN \<Rightarrow> False)"

text \<open>
  The caller's obligation on a buffer it provides: the dimensions of the score matrix
  (the header asks for it).
\<close>

definition deriv_fits :: "CuMatrix \<Rightarrow> CuMatrix option \<Rightarrow> bool" where
  "deriv_fits X deriv = (case deriv of None \<Rightarrow> True | Some D \<Rightarrow> same_dim D X)"

text \<open>
  The caller's obligation on the silence indices when a silence option is set: one index
  for each column, none beyond the columns.
\<close>

definition sil_fits :: "ChainTrainingOptions \<Rightarrow> CuMatrix \<Rightarrow> int list option \<Rightarrow> bool" where
  "sil_fits opts X sil_indices =
     (case sil_indices of
        None \<Rightarrow> True
      | Some idx \<Rightarrow> (exclude_silence opts \<or> one_silence_class opts) \<longrightarrow>
                     length idx = NumCols X \<and> list_all (\<lambda>i. i < int (NumCols X)) idx)"

text \<open>The three assertions at the head of ComputeKLObjfAndDeriv.\<close>

definition KL_asserts :: "Supervision \<Rightarrow> CuMatrix \<Rightarrow> bool" where
  "KL_asserts supervision X =
     (0 < NumRows (numerator_post_targets supervision)
      \<and> int (NumRows X) = int32_mul (num_sequences supervision) (frames_per_sequence supervision)
      \<and> NumRows (numerator_post_targets supervision) = NumRows X)"

text \<open>The squared Frobenius norm of a matrix, the sum of the squares of its elements.\<close>

definition squared_frobenius_norm :: "CuMatrix \<Rightarrow> BaseFloat" where
  "squared_frobenius_norm X =
     fsum (concat (map (\<lambda>i. map (\<lambda>j. fmul (elem X i j) (elem X i j)) [0..<NumCols X])
                       [0..<NumRows X]))"

text \<open>
  The numerator posteriors, scaled by the supervision weight: what
  \<open>NumeratorComputation::Backward\<close> leaves in a zeroed matrix of the size of the scores;
  and the same for the generic numerator.
\<close>

definition numerator_posteriors :: "computations \<Rightarrow> CuMatrix \<Rightarrow> CuMatrix" where
  "numerator_posteriors cmp X =
     (Resize (NumRows X) (NumCols X))
       \<lparr>elem := num_Backward cmp (Resize (NumRows X) (NumCols X))\<rparr>"

definition generic_numerator_posteriors :: "computations \<Rightarrow> CuMatrix \<Rightarrow> CuMatrix" where
  "generic_numerator_posteriors cmp X =
     (Resize (NumRows X) (NumCols X))
       \<lparr>elem := snd (gen_Backward cmp (Resize (NumRows X) (NumCols X)))\<rparr>"

text \<open>A buffer with \<open>alpha\<close> times the matrix \<open>A\<close> added to each element.\<close>

definition plus_scaled :: "BaseFloat \<Rightarrow> CuMatrix \<Rightarrow> CuMatrix \<Rightarrow> CuMatrix" where
  "plus_scaled alpha A D = D\<lparr>elem := (\<lambda>i j. fadd (elem D i j) (fmul alpha (elem A i j)))\<rparr>"

subsection \<open>A small minibatch\<close>

text \<open>
  Two frames of one sequence with two classes, a buffer with arbitrary contents, and
  forward-backward results to run the drivers on.
\<close>

definition demo_X :: CuMatrix where
  "demo_X = \<lparr>NumRows = 2, NumCols = 2, elem = (\<lambda>i j. Fin (real (2 * i + j + 1)))\<rparr>"

definition demo_buffer :: CuMatrix where
  "demo_buffer = \<lparr>NumRows = 2, NumCols = 2, elem = (\<lambda>i j. Fin 7)\<rparr>"

definition demo_supervision :: Supervision where
  "demo_supervision = \<lparr>weight = Fin 2, num_sequences = 1, frames_per_sequence = 2,
     e2e = False,
     numerator_post_targets = \<lparr>NumRows = 2, NumCols = 2, elem = (\<lambda>i j. Fin (1 / 2))\<rparr>\<rparr>"

definition demo_opts :: ChainTrainingOptions where
  "demo_opts = \<lparr>l2_regularize = Fin (1 / 10), leaky_hmm_coefficient = Fin (1 / 100000),
     xent_regularize = Fin (1 / 10), use_smbr_objective = False, exclude_silence = True,
     one_silence_class = False, silence_pdfs_str = ''0'', mmi_factor = Fin 1,
     smbr_factor = Fin 1, norm_regularize = False\<rparr>"

definition demo_cmp :: computations where
  "demo_cmp = \<lparr>den_Forward = Fin 3,
     den_Backward = (\<lambda>scale D. (True, (\<lambda>i j. fadd (elem D i j) (fmul scale (Fin (1 / 2)))))),
     num_Forward = Fin (- 1),
     num_Backward = (\<lambda>D i j. fadd (elem D i j) (if j = 0 then Fin (3 / 2) else Fin (1 / 2))),
     gen_Forward = Fin (- 1),
     gen_Backward = (\<lambda>D. (True, (\<lambda>i j. fadd (elem D i j) (if j = 1 then Fin 2 else Fin 0)))),
     ForwardSmbr = (\<lambda>P. (fadd (elem P 0 0) (elem P 1 0), Fin (- 3))),
     BackwardSmbr = (\<lambda>P w D. (True, (\<lambda>i j. fadd (elem D i j) (fmul w (elem P i j)))))\<rparr>"

lemmas demo_defs = demo_X_def demo_buffer_def demo_supervision_def demo_opts_def demo_cmp_def

section \<open>Properties\<close>

subsection \<open>Floats and matrices\<close>

lemma fadd_zero_left [simp]: "fadd (Fin 0) y = y"
  by (cases y) auto

lemma f_eq_zero [simp]: "f_eq x (Fin 0) = (x = Fin 0)"
  by (cases x) auto

lemma fsub_self [simp]: "(fsub x x = Fin 0) = is_finite x"
  by (cases x) (auto simp: fsub_def is_finite_def)

lemma in_float_range_finite: "in_float_range x \<Longrightarrow> is_finite x"
  by (cases x) (simp_all add: in_float_range_def is_finite_def)

lemma TraceMatMat_trans_self: "TraceMatMat_trans X X = Some (squared_frobenius_norm X)"
  by (simp add: TraceMatMat_trans_def same_dim_def squared_frobenius_norm_def)

lemma deriv_fits_SetZero: "deriv_fits X (map_option SetZero d) = deriv_fits X d"
  by (cases d) (auto simp: deriv_fits_def same_dim_def SetZero_def)

subsection \<open>The failure blocks\<close>

lemma failure_block_failed:
  assumes "\<not> is_finite (st_objf s) \<or> \<not> st_denominator_ok s"
  shows "failure_block s = s\<lparr>st_deriv := map_option SetZero (st_deriv s),
             st_xent := map_option SetZero (st_xent s),
             st_objf := fmul (Fin (- 10)) (st_weight s)\<rparr>"
  using assms by (auto simp: failure_block_def)

lemma failure_block_ok:
  assumes "is_finite (st_objf s)" "st_denominator_ok s"
  shows "failure_block s = s"
  using assms by (auto simp: failure_block_def)

lemma failure_block_e2e_failed:
  assumes "\<not> is_finite (st_objf s) \<or> \<not> st_denominator_ok s \<or> \<not> st_numerator_ok s"
  shows "failure_block_e2e s = s\<lparr>st_deriv := map_option SetZero (st_deriv s),
             st_xent := map_option SetZero (st_xent s),
             st_objf := fmul (Fin (- 10)) (st_weight s)\<rparr>"
  using assms by (auto simp: failure_block_e2e_def)

lemma failure_block_e2e_ok:
  assumes "is_finite (st_objf s)" "st_denominator_ok s" "st_numerator_ok s"
  shows "failure_block_e2e s = s"
  using assms by (auto simp: failure_block_e2e_def)

lemma failure_block_keeps [simp]:
  "st_weight (failure_block s) = st_weight s"
  "st_numerator_ok (failure_block s) = st_numerator_ok s"
  "st_denominator_ok (failure_block s) = st_denominator_ok s"
  by (simp_all add: failure_block_def)

lemma failure_block_e2e_keeps [simp]:
  "st_weight (failure_block_e2e s) = st_weight s"
  "st_numerator_ok (failure_block_e2e s) = st_numerator_ok s"
  "st_denominator_ok (failure_block_e2e s) = st_denominator_ok s"
  by (simp_all add: failure_block_e2e_def)

lemma failure_block_smbr_keeps [simp]:
  "st_weight (failure_block_smbr opts s) = st_weight s"
  "st_denominator_ok (failure_block_smbr opts s) = st_denominator_ok s"
  by (simp_all add: failure_block_smbr_def Let_def)

lemma deriv_fits_failure_block [simp]:
  "deriv_fits X (st_deriv (failure_block s)) = deriv_fits X (st_deriv s)"
  by (auto simp: failure_block_def deriv_fits_SetZero)

lemma deriv_fits_failure_block_e2e [simp]:
  "deriv_fits X (st_deriv (failure_block_e2e s)) = deriv_fits X (st_deriv s)"
  by (auto simp: failure_block_e2e_def deriv_fits_SetZero)

lemma deriv_fits_failure_block_smbr [simp]:
  "deriv_fits X (st_deriv (failure_block_smbr opts s)) = deriv_fits X (st_deriv s)"
  by (auto simp: failure_block_smbr_def Let_def deriv_fits_SetZero)

subsection \<open>The regularizer blocks\<close>

lemma l2_penalty_total:
  assumes "deriv_fits X d"
  shows "l2_penalty opts supervision X d =
     Some (fmul (fmul (Fin (- (1 / 2))) (fmul (weight supervision) (l2_regularize opts)))
                (squared_frobenius_norm X),
           map_option (plus_scaled (fmul (Fin (- 1))
                          (fmul (weight supervision) (l2_regularize opts))) X) d)"
  using assms
  by (cases d)
     (auto simp: l2_penalty_def TraceMatMat_trans_self deriv_fits_def AddMat_def Let_def
        plus_scaled_def)

lemma l2_block_total:
  assumes "deriv_fits X (st_deriv s)"
  shows "l2_block opts supervision X s =
     Some \<lparr>objf = st_objf s,
           l2_term = (if l2_regularize opts = Fin 0 then Fin 0
                      else fmul (fmul (Fin (- (1 / 2)))
                                  (fmul (weight supervision) (l2_regularize opts)))
                                (squared_frobenius_norm X)),
           tot_weight = st_weight s,
           nnet_output_deriv = (if l2_regularize opts = Fin 0 then st_deriv s
                                else map_option (plus_scaled (fmul (Fin (- 1))
                                       (fmul (weight supervision) (l2_regularize opts))) X)
                                       (st_deriv s)),
           xent_output_deriv = st_xent s\<rparr>"
  using assms by (simp add: l2_block_def l2_penalty_total)

lemma l2_block_e2e_total:
  assumes "deriv_fits X (st_deriv s)"
  shows "l2_block_e2e opts supervision X s =
     Some \<lparr>objf = st_objf s,
           l2_term = (if l2_regularize opts = Fin 0 \<or> \<not> st_numerator_ok s then Fin 0
                      else fmul (fmul (Fin (- (1 / 2)))
                                  (fmul (weight supervision) (l2_regularize opts)))
                                (squared_frobenius_norm X)),
           tot_weight = st_weight s,
           nnet_output_deriv = (if l2_regularize opts = Fin 0 \<or> \<not> st_numerator_ok s
                                then st_deriv s
                                else map_option (plus_scaled (fmul (Fin (- 1))
                                       (fmul (weight supervision) (l2_regularize opts))) X)
                                       (st_deriv s)),
           xent_output_deriv = st_xent s\<rparr>"
  using assms by (simp add: l2_block_e2e_def l2_penalty_total)

lemma l2_block_keeps:
  "l2_block opts supervision X s = Some r \<Longrightarrow>
     tot_weight r = st_weight s \<and> objf r = st_objf s \<and> xent_output_deriv r = st_xent s"
  by (auto simp: l2_block_def split: prod.splits Option.bind_splits if_splits)

lemma l2_block_e2e_keeps:
  "l2_block_e2e opts supervision X s = Some r \<Longrightarrow>
     tot_weight r = st_weight s \<and> objf r = st_objf s \<and> xent_output_deriv r = st_xent s"
  by (auto simp: l2_block_e2e_def split: prod.splits Option.bind_splits if_splits)

lemma l2_block_smbr_keeps:
  "l2_block_smbr opts supervision X s = Some r \<Longrightarrow>
     tot_weight r = st_weight s \<and> objf r = st_objf s \<and> xent_output_deriv r = st_xent s
     \<and> mmi_objf r = st_mmi_objf s"
  by (auto simp: l2_block_smbr_def Let_def split: prod.splits Option.bind_splits if_splits)

subsection \<open>The drivers up to the objective\<close>

lemma Chain_compute_total:
  assumes "deriv_fits X deriv"
  shows "\<exists>s. Chain_compute cmp supervision X deriv xent = Some s
     \<and> st_objf s = fsub (num_Forward cmp) (fmul (weight supervision) (den_Forward cmp))
     \<and> st_weight s = compute_weight supervision
     \<and> st_numerator_ok s
     \<and> map_option SetZero (st_deriv s) = map_option SetZero deriv
     \<and> deriv_fits X (st_deriv s)
     \<and> st_xent s = map_option (\<lambda>_. numerator_posteriors cmp X) xent
     \<and> st_denominator_ok s = fst (denominator_backward cmp (fneg (weight supervision))
                                                       (map_option SetZero deriv))"
  using assms
  by (cases deriv; cases xent)
     (auto simp: Chain_compute_def deriv_fits_def denominator_backward_def AddMat_def
        same_dim_def Resize_def SetZero_def Let_def numerator_posteriors_def)

lemma E2e_compute_total:
  assumes "deriv_fits X deriv"
  shows "\<exists>s. E2e_compute cmp supervision X deriv xent = Some s
     \<and> st_objf s = fsub (gen_Forward cmp) (fmul (weight supervision) (den_Forward cmp))
     \<and> st_weight s = compute_weight supervision
     \<and> map_option SetZero (st_deriv s) = map_option SetZero deriv
     \<and> deriv_fits X (st_deriv s)
     \<and> st_xent s = map_option (\<lambda>_. if is_finite (gen_Forward cmp)
                                     then generic_numerator_posteriors cmp X
                                     else Resize (NumRows X) (NumCols X)) xent
     \<and> (st_numerator_ok s \<longrightarrow> is_finite (gen_Forward cmp))
     \<and> st_denominator_ok s = fst (denominator_backward cmp (fneg (weight supervision))
                                                       (map_option SetZero deriv))
     \<and> (is_finite (gen_Forward cmp) \<and> xent \<noteq> None \<longrightarrow>
          st_numerator_ok s = fst (gen_Backward cmp (Resize (NumRows X) (NumCols X))))"
  using assms
  by (cases deriv; cases xent)
     (auto simp: E2e_compute_def deriv_fits_def denominator_backward_def AddMat_def
        same_dim_def Resize_def SetZero_def Let_def generic_numerator_posteriors_def)

lemma numerator_posteriors_zeroed [simp]:
  "SetZero (numerator_posteriors cmp X) = Resize (NumRows X) (NumCols X)"
  "SetZero (generic_numerator_posteriors cmp X) = Resize (NumRows X) (NumCols X)"
  "SetZero (Resize r c) = Resize r c"
  by (simp_all add: SetZero_def numerator_posteriors_def generic_numerator_posteriors_def
        Resize_def)

lemma SetZero_plus_scaled:
  "map_option (plus_scaled alpha X) (map_option SetZero d) =
     map_option (\<lambda>D. D\<lparr>elem := (\<lambda>i j. fmul alpha (elem X i j))\<rparr>) d"
  by (cases d) (simp_all add: plus_scaled_def SetZero_def)

lemma KL_compute_total:
  assumes "KL_asserts supervision X" "deriv_fits X deriv"
    "deriv \<noteq> None \<or> xent \<noteq> None \<longrightarrow>
       NumCols (numerator_post_targets supervision) = NumCols X"
  shows "\<exists>s. KL_compute cmp supervision X deriv xent = Some s
     \<and> st_objf s = fneg (fmul (weight supervision) (den_Forward cmp))
     \<and> st_weight s = compute_weight supervision
     \<and> map_option SetZero (st_deriv s) = map_option SetZero deriv
     \<and> deriv_fits X (st_deriv s)
     \<and> st_xent s = map_option (\<lambda>_. Scale ((Resize (NumRows X) (NumCols X))
                        \<lparr>elem := elem (numerator_post_targets supervision)\<rparr>)
                        (weight supervision)) xent"
  using assms
  by (cases deriv; cases xent)
     (auto simp: KL_compute_def KL_asserts_def deriv_fits_def denominator_backward_def AddMat_def
        CopyFromMat_def Scale_def same_dim_def Resize_def SetZero_def Let_def)

lemma Smbr_numerator_total:
  assumes "deriv_fits X deriv" "deriv_fits X xent"
  shows "Smbr_numerator opts cmp X deriv xent =
     Some (fmul (mmi_factor opts) (num_Forward cmp), numerator_posteriors cmp X,
           (if mmi_factor opts = Fin 0 then deriv
            else map_option (\<lambda>D. Scale (D\<lparr>elem := elem (numerator_posteriors cmp X)\<rparr>)
                                        (mmi_factor opts)) deriv),
           map_option (\<lambda>Xe. Xe\<lparr>elem := elem (numerator_posteriors cmp X)\<rparr>) xent)"
  using assms
  by (cases deriv; cases xent)
     (auto simp: Smbr_numerator_def numerator_posteriors_def deriv_fits_def CopyFromMat_def
        same_dim_def Resize_def Let_def)

lemma Smbr_silence_total:
  assumes "sil_fits opts X sil_indices" "NumRows P = NumRows X" "NumCols P = NumCols X"
  shows "\<exists>A. Smbr_silence opts X sil_indices P = Some A
              \<and> NumRows A = NumRows P \<and> NumCols A = NumCols P"
  using assms
  by (cases sil_indices)
     (auto simp: Smbr_silence_def sil_fits_def CopyCols_self_def CopyCols_def AddColSumMat_def
        CopyColsFromVec_def Resize_def)

lemma Smbr_denominator_fields [simp]:
  "st_weight (Smbr_denominator opts cmp supervision nlw A d1 x1) = compute_weight supervision"
  "st_xent (Smbr_denominator opts cmp supervision nlw A d1 x1) = x1"
  "st_objf (Smbr_denominator opts cmp supervision nlw A d1 x1)
     = fmul (weight supervision) (fst (ForwardSmbr cmp A))"
  "st_mmi_objf (Smbr_denominator opts cmp supervision nlw A d1 x1)
     = fadd (fmul (weight supervision) (snd (ForwardSmbr cmp A))) nlw"
  "map_option SetZero (st_deriv (Smbr_denominator opts cmp supervision nlw A d1 x1))
     = map_option SetZero d1"
  "deriv_fits X (st_deriv (Smbr_denominator opts cmp supervision nlw A d1 x1))
     = deriv_fits X d1"
  "st_denominator_ok (Smbr_denominator opts cmp supervision nlw A d1 x1)
     = (case d1 of None \<Rightarrow> True
        | Some D \<Rightarrow> fst (BackwardSmbr cmp A (weight supervision)
                          (if mmi_factor opts = Fin 0 then SetZero D else D)))"
  by (cases d1; simp add: Smbr_denominator_def Let_def SetZero_def deriv_fits_def same_dim_def
        split: prod.splits)+

lemma Smbr_compute_total:
  assumes "deriv_fits X deriv" "deriv_fits X xent" "sil_fits opts X sil_indices"
  shows "\<exists>A d1. Smbr_silence opts X sil_indices (numerator_posteriors cmp X) = Some A
     \<and> d1 = (if mmi_factor opts = Fin 0 then deriv
             else map_option (\<lambda>D. Scale (D\<lparr>elem := elem (numerator_posteriors cmp X)\<rparr>)
                                         (mmi_factor opts)) deriv)
     \<and> map_option SetZero d1 = map_option SetZero deriv
     \<and> deriv_fits X d1
     \<and> Smbr_compute opts cmp supervision X deriv xent sil_indices =
         Some (Smbr_denominator opts cmp supervision
                 (fmul (mmi_factor opts) (num_Forward cmp)) A d1
                 (map_option (\<lambda>Xe. Xe\<lparr>elem := elem (numerator_posteriors cmp X)\<rparr>) xent))"
proof -
  have dims: "NumRows (numerator_posteriors cmp X) = NumRows X"
             "NumCols (numerator_posteriors cmp X) = NumCols X"
    by (simp_all add: numerator_posteriors_def Resize_def)
  obtain A where A: "Smbr_silence opts X sil_indices (numerator_posteriors cmp X) = Some A"
    using Smbr_silence_total[OF assms(3) dims] by blast
  have d1: "map_option SetZero (map_option (\<lambda>D. Scale (D\<lparr>elem := e\<rparr>) m) deriv)
              = map_option SetZero deriv"
           "deriv_fits X (map_option (\<lambda>D. Scale (D\<lparr>elem := e\<rparr>) m) deriv)" for e m
    using assms(1)
    by (cases deriv; simp add: Scale_def SetZero_def deriv_fits_def same_dim_def)+
  show ?thesis
    using A assms(1)
    by (simp add: Smbr_compute_def Smbr_numerator_total[OF assms(1,2)] d1)
qed

lemma l2_block_smbr_total:
  assumes "deriv_fits X (st_deriv s)"
  shows "l2_block_smbr opts supervision X s =
     Some \<lparr>objf = st_objf s,
           l2_term = (if l2_regularize opts = Fin 0 then Fin 0
                      else if \<not> norm_regularize opts
                      then fmul (fmul (Fin (- (1 / 2)))
                                  (fmul (weight supervision) (l2_regularize opts)))
                                (squared_frobenius_norm X)
                      else fmul (fneg (fmul (weight supervision) (l2_regularize opts)))
                                (Sum (ApplyExp X))),
           tot_weight = st_weight s,
           nnet_output_deriv =
             (if l2_regularize opts = Fin 0 then st_deriv s
              else map_option (plus_scaled (fmul (Fin (- 1))
                      (fmul (weight supervision) (l2_regularize opts)))
                      (if \<not> norm_regularize opts then X else ApplyExp X)) (st_deriv s)),
           xent_output_deriv = st_xent s,
           mmi_objf = st_mmi_objf s\<rparr>"
  using assms
  by (cases "st_deriv s")
     (auto simp: l2_block_smbr_def l2_penalty_total Let_def AddMat_def ApplyExp_def
        deriv_fits_def same_dim_def plus_scaled_def)

lemma Chain_compute_weight:
  "Chain_compute cmp supervision X deriv xent = Some s
     \<Longrightarrow> st_weight s = compute_weight supervision"
  by (auto simp: Chain_compute_def Let_def
        split: prod.splits Option.bind_splits if_splits option.splits)

lemma E2e_compute_weight:
  "E2e_compute cmp supervision X deriv xent = Some s
     \<Longrightarrow> st_weight s = compute_weight supervision"
  by (auto simp: E2e_compute_def Let_def
        split: prod.splits Option.bind_splits if_splits option.splits)

lemma KL_compute_weight:
  "KL_compute cmp supervision X deriv xent = Some s
     \<Longrightarrow> st_weight s = compute_weight supervision"
  by (auto simp: KL_compute_def Let_def
        split: prod.splits Option.bind_splits if_splits option.splits)

lemma Smbr_compute_weight:
  "Smbr_compute opts cmp supervision X deriv xent sil = Some s
     \<Longrightarrow> st_weight s = compute_weight supervision"
  by (auto simp: Smbr_compute_def split: prod.splits Option.bind_splits)

lemma failure_block_smbr_failed:
  assumes "\<not> is_finite (fadd (st_objf s) (st_mmi_objf s)) \<or> \<not> st_denominator_ok s"
  shows "failure_block_smbr opts s = s\<lparr>st_deriv := map_option SetZero (st_deriv s),
             st_xent := map_option SetZero (st_xent s),
             st_mmi_objf := fmul (fmul (fneg (mmi_factor opts)) (Fin 10)) (st_weight s),
             st_objf := Fin 0\<rparr>"
  using assms by (auto simp: failure_block_smbr_def Let_def)

lemma failure_block_smbr_ok:
  assumes "is_finite (fadd (st_objf s) (st_mmi_objf s))" "st_denominator_ok s"
  shows "failure_block_smbr opts s = s"
  using assms by (auto simp: failure_block_smbr_def Let_def)

lemma squared_frobenius_norm_demo_X: "squared_frobenius_norm demo_X = Fin 30"
  by (simp add: squared_frobenius_norm_def fsum_def demo_X_def eval_nat_numeral)

lemma demo_fits:
  "deriv_fits demo_X (Some demo_buffer)"
  "KL_asserts demo_supervision demo_X"
  "NumCols (numerator_post_targets demo_supervision) = NumCols demo_X"
  "sil_fits demo_opts demo_X None"
  "sil_fits demo_opts demo_X (Some [- 1, 1])"
  by (simp_all add: deriv_fits_def same_dim_def KL_asserts_def int32_mul_def sil_fits_def
        demo_defs)

lemma denominator_backward_ok:
  "fst (denominator_backward cmp scale (map_option SetZero deriv))
     = (case deriv of None \<Rightarrow> True
        | Some D \<Rightarrow> fst (den_Backward cmp scale (SetZero D)))"
  by (cases deriv) (simp_all add: denominator_backward_def)

lemma E2e_compute_numerator_ok:
  assumes "deriv_fits X deriv" "E2e_compute cmp supervision X deriv xent = Some s"
  shows "st_numerator_ok s =
     (is_finite (gen_Forward cmp)
      \<and> (case xent of
            Some Xe \<Rightarrow> fst (gen_Backward cmp (Resize (NumRows X) (NumCols X)))
          | None \<Rightarrow>
             (case deriv of
                None \<Rightarrow> True
              | Some D \<Rightarrow>
                  fst (gen_Backward cmp
                        ((SetZero D)\<lparr>elem := snd (den_Backward cmp (fneg (weight supervision))
                                                      (SetZero D))\<rparr>)))))"
  using assms
  by (cases deriv; cases xent)
     (auto simp: E2e_compute_def deriv_fits_def denominator_backward_def AddMat_def
        same_dim_def Resize_def SetZero_def Let_def split: if_splits)

lemma CopyCols_row_keep_or_zero:
  assumes "\<forall>c<n. indices ! c = - 1 \<or> indices ! c = int c"
  shows "CopyCols_row indices n row c = (if c < n \<and> indices ! c < 0 then Fin 0 else row c)"
  using assms
proof (induction n arbitrary: c)
  case 0
  then show ?case by (simp add: CopyCols_row_def)
next
  case (Suc n)
  have IH: "CopyCols_row indices n row c'
              = (if c' < n \<and> indices ! c' < 0 then Fin 0 else row c')" for c'
    using Suc by simp
  have step: "CopyCols_row indices (Suc n) row =
      (CopyCols_row indices n row)(n := (if indices ! n < 0 then Fin 0
                                           else CopyCols_row indices n row (nat (indices ! n))))"
    by (simp add: CopyCols_row_def)
  from Suc.prems have "indices ! n = - 1 \<or> indices ! n = int n" by simp
  then show ?case
    by (auto simp: step IH)
qed

section \<open>The claims\<close>

text \<open>
  C1, as amended. In ComputeChainObjfAndDeriv, on the path for \<open>e2e\<close> supervision and
  on the other one, the call returns when the gradient buffer has the size of the
  scores. When the computed objective is not finite, or the denominator's \<open>Backward\<close>
  returned false, or on the e2e path the generic numerator's \<open>Forward\<close> was not finite
  or its \<open>Backward\<close> returned false, the objective returned is \<open>-10 * weight\<close> and the
  cross-entropy buffer is returned zero. The gradient buffer is returned zero when
  \<open>opts.l2_regularize\<close> is zero or the generic numerator failed; otherwise it is
  returned holding \<open>-1.0 * (supervision.weight * opts.l2_regularize)\<close> times the
  scores, which the regularizer block adds after the failure block zeroed the buffer.
\<close>

theorem failure_substitutes_objf_and_returns_zero_or_l2_derivative:
  fixes supervision :: Supervision and cmp :: computations and X :: CuMatrix
    and deriv :: "CuMatrix option" and xent :: "CuMatrix option"
  defines "W \<equiv> fmul (fmul (weight supervision) (int32_to_float (num_sequences supervision)))
                     (int32_to_float (frames_per_sequence supervision))"
      and "den_ok \<equiv> (case deriv of None \<Rightarrow> True
                      | Some D \<Rightarrow> fst (den_Backward cmp (fneg (weight supervision))
                                                    (SetZero D)))"
      and "num_ok \<equiv>
             (is_finite (gen_Forward cmp)
              \<and> (case xent of
                    Some Xe \<Rightarrow> fst (gen_Backward cmp (Resize (NumRows X) (NumCols X)))
                  | None \<Rightarrow>
                     (case deriv of
                        None \<Rightarrow> True
                      | Some D \<Rightarrow>
                          fst (gen_Backward cmp
                                ((SetZero D)\<lparr>elem := snd (den_Backward cmp
                                          (fneg (weight supervision)) (SetZero D))\<rparr>)))))"
  assumes fits: "deriv_fits X deriv"
  shows "\<exists>r. ComputeChainObjfAndDeriv opts cmp supervision X deriv xent = Some r
     \<and> tot_weight r = W
     \<and> (\<not> is_finite (fsub (if e2e supervision then gen_Forward cmp else num_Forward cmp)
                            (fmul (weight supervision) (den_Forward cmp)))
          \<or> \<not> den_ok \<or> (e2e supervision \<and> \<not> num_ok) \<longrightarrow>
          objf r = fmul (Fin (- 10)) W
        \<and> xent_output_deriv r = map_option (\<lambda>_. Resize (NumRows X) (NumCols X)) xent
        \<and> nnet_output_deriv r =
            (if l2_regularize opts = Fin 0 \<or> (e2e supervision \<and> \<not> num_ok)
             then map_option SetZero deriv
             else map_option (\<lambda>D. D\<lparr>elem := (\<lambda>i j.
                    fmul (fmul (Fin (- 1)) (fmul (weight supervision) (l2_regularize opts)))
                         (elem X i j))\<rparr>) deriv))"
proof (cases "e2e supervision")
  case True
  obtain s where s: "E2e_compute cmp supervision X deriv xent = Some s"
     "map_option SetZero (st_deriv s) = map_option SetZero deriv"
     "deriv_fits X (st_deriv s)"
     "st_xent s = map_option (\<lambda>_. if is_finite (gen_Forward cmp)
                                     then generic_numerator_posteriors cmp X
                                     else Resize (NumRows X) (NumCols X)) xent"
     "st_objf s = fsub (gen_Forward cmp) (fmul (weight supervision) (den_Forward cmp))"
     "st_denominator_ok s = fst (denominator_backward cmp (fneg (weight supervision))
                                                       (map_option SetZero deriv))"
     "st_weight s = compute_weight supervision"
    using E2e_compute_total[OF fits, of cmp supervision xent] by blast
  have flags: "st_denominator_ok s = den_ok" "st_numerator_ok s = num_ok"
    using E2e_compute_numerator_ok[OF fits s(1)]
    by (simp_all add: s(6) denominator_backward_ok den_ok_def num_ok_def)
  have zx: "map_option SetZero (st_xent s) = map_option (\<lambda>_. Resize (NumRows X) (NumCols X)) xent"
    by (cases xent) (simp_all add: s(4))
  have W: "compute_weight supervision = W"
    by (simp add: W_def compute_weight_def)
  have "ComputeChainObjfAndDeriv opts cmp supervision X deriv xent
          = l2_block_e2e opts supervision X (failure_block_e2e s)"
    using True s(1) by (simp add: ComputeChainObjfAndDeriv_def ComputeChainObjfAndDerivE2e_def)
  then show ?thesis
    using True s(3,5,7) flags W
    by (auto simp: l2_block_e2e_total failure_block_e2e_failed s(2) zx SetZero_plus_scaled
          simp del: fsub_self)
next
  case False
  obtain s where s: "Chain_compute cmp supervision X deriv xent = Some s"
     "st_numerator_ok s"
     "map_option SetZero (st_deriv s) = map_option SetZero deriv"
     "deriv_fits X (st_deriv s)"
     "st_xent s = map_option (\<lambda>_. numerator_posteriors cmp X) xent"
     "st_objf s = fsub (num_Forward cmp) (fmul (weight supervision) (den_Forward cmp))"
     "st_denominator_ok s = fst (denominator_backward cmp (fneg (weight supervision))
                                                       (map_option SetZero deriv))"
     "st_weight s = compute_weight supervision"
    using Chain_compute_total[OF fits, of cmp supervision xent] by blast
  have flags: "st_denominator_ok s = den_ok"
    by (simp add: s(7) denominator_backward_ok den_ok_def)
  have zx: "map_option SetZero (st_xent s) = map_option (\<lambda>_. Resize (NumRows X) (NumCols X)) xent"
    by (cases xent) (simp_all add: s(5))
  have W: "compute_weight supervision = W"
    by (simp add: W_def compute_weight_def)
  have "ComputeChainObjfAndDeriv opts cmp supervision X deriv xent
          = l2_block opts supervision X (failure_block s)"
    using False s(1) by (simp add: ComputeChainObjfAndDeriv_def)
  then show ?thesis
    using False s(2,4,6,8) flags W
    by (auto simp: l2_block_total failure_block_failed s(3) zx SetZero_plus_scaled
          simp del: fsub_self)
qed

theorem failure_substitutes_objf_and_returns_zero_or_l2_derivative_witness:
  "deriv_fits demo_X (Some demo_buffer)
   \<and> map_option objf (ComputeChainObjfAndDeriv demo_opts (demo_cmp\<lparr>den_Forward := PInf\<rparr>)
        demo_supervision demo_X (Some demo_buffer) (Some demo_buffer)) = Some (Fin (- 40))
   \<and> map_option objf (ComputeChainObjfAndDeriv demo_opts
        (demo_cmp\<lparr>den_Backward := (\<lambda>scale D. (False, elem D))\<rparr>)
        demo_supervision demo_X (Some demo_buffer) (Some demo_buffer)) = Some (Fin (- 40))
   \<and> map_option xent_output_deriv (ComputeChainObjfAndDeriv demo_opts
        (demo_cmp\<lparr>den_Backward := (\<lambda>scale D. (False, elem D))\<rparr>)
        demo_supervision demo_X (Some demo_buffer) (Some demo_buffer))
      = Some (Some (Resize 2 2))
   \<and> map_option objf (ComputeChainObjfAndDeriv demo_opts (demo_cmp\<lparr>gen_Forward := NInf\<rparr>)
        (demo_supervision\<lparr>e2e := True\<rparr>) demo_X (Some demo_buffer) (Some demo_buffer))
      = Some (Fin (- 40))
   \<and> map_option objf (ComputeChainObjfAndDeriv demo_opts
        (demo_cmp\<lparr>gen_Backward := (\<lambda>D. (False, elem D))\<rparr>)
        (demo_supervision\<lparr>e2e := True\<rparr>) demo_X (Some demo_buffer) (Some demo_buffer))
      = Some (Fin (- 40))
   \<and> map_option nnet_output_deriv (ComputeChainObjfAndDeriv demo_opts
        (demo_cmp\<lparr>gen_Backward := (\<lambda>D. (False, elem D))\<rparr>)
        (demo_supervision\<lparr>e2e := True\<rparr>) demo_X (Some demo_buffer) (Some demo_buffer))
      = Some (Some (Resize 2 2))"
proof -
  have fits: "deriv_fits demo_X (Some demo_buffer)"
    by (rule demo_fits)
  note run = failure_substitutes_objf_and_returns_zero_or_l2_derivative[OF fits,
        where opts = demo_opts and xent = "Some demo_buffer"]
  have a: "map_option objf (ComputeChainObjfAndDeriv demo_opts (demo_cmp\<lparr>den_Forward := PInf\<rparr>)
        demo_supervision demo_X (Some demo_buffer) (Some demo_buffer)) = Some (Fin (- 40))"
    using run[where cmp = "demo_cmp\<lparr>den_Forward := PInf\<rparr>"
              and supervision = demo_supervision]
    by (auto simp: demo_defs is_finite_def fsub_def int32_to_float_def)
  have b: "map_option objf (ComputeChainObjfAndDeriv demo_opts
        (demo_cmp\<lparr>den_Backward := (\<lambda>scale D. (False, elem D))\<rparr>)
        demo_supervision demo_X (Some demo_buffer) (Some demo_buffer)) = Some (Fin (- 40))"
     "map_option xent_output_deriv (ComputeChainObjfAndDeriv demo_opts
        (demo_cmp\<lparr>den_Backward := (\<lambda>scale D. (False, elem D))\<rparr>)
        demo_supervision demo_X (Some demo_buffer) (Some demo_buffer))
      = Some (Some (Resize 2 2))"
    using run[where cmp = "demo_cmp\<lparr>den_Backward := (\<lambda>scale D. (False, elem D))\<rparr>"
              and supervision = demo_supervision]
    by (auto simp: demo_defs int32_to_float_def Resize_def)
  have c: "map_option objf (ComputeChainObjfAndDeriv demo_opts (demo_cmp\<lparr>gen_Forward := NInf\<rparr>)
        (demo_supervision\<lparr>e2e := True\<rparr>) demo_X (Some demo_buffer) (Some demo_buffer))
      = Some (Fin (- 40))"
    using run[where cmp = "demo_cmp\<lparr>gen_Forward := NInf\<rparr>"
              and supervision = "demo_supervision\<lparr>e2e := True\<rparr>"]
    by (auto simp: demo_defs is_finite_def fsub_def int32_to_float_def)
  have d: "map_option objf (ComputeChainObjfAndDeriv demo_opts
        (demo_cmp\<lparr>gen_Backward := (\<lambda>D. (False, elem D))\<rparr>)
        (demo_supervision\<lparr>e2e := True\<rparr>) demo_X (Some demo_buffer) (Some demo_buffer))
      = Some (Fin (- 40))"
     "map_option nnet_output_deriv (ComputeChainObjfAndDeriv demo_opts
        (demo_cmp\<lparr>gen_Backward := (\<lambda>D. (False, elem D))\<rparr>)
        (demo_supervision\<lparr>e2e := True\<rparr>) demo_X (Some demo_buffer) (Some demo_buffer))
      = Some (Some (Resize 2 2))"
    using run[where cmp = "demo_cmp\<lparr>gen_Backward := (\<lambda>D. (False, elem D))\<rparr>"
              and supervision = "demo_supervision\<lparr>e2e := True\<rparr>"]
    by (auto simp: demo_defs is_finite_def int32_to_float_def SetZero_def Resize_def)
  show ?thesis
    using fits a b c d by simp
qed

text \<open>
  C1 as stated fails outside the e2e path when \<open>opts.l2_regularize\<close> is nonzero: with
  a denominator log-likelihood of \<open>+inf\<close> the objective is not finite and is replaced
  by \<open>-40\<close>, and the gradient buffer is returned with \<open>-0.2\<close> times the scores, not
  zero.
\<close>

theorem failure_returns_zero_buffers_counterexample:
  "\<not> is_finite (fsub (num_Forward (demo_cmp\<lparr>den_Forward := PInf\<rparr>))
                      (fmul (weight demo_supervision)
                            (den_Forward (demo_cmp\<lparr>den_Forward := PInf\<rparr>))))
   \<and> map_option objf (ComputeChainObjfAndDeriv demo_opts (demo_cmp\<lparr>den_Forward := PInf\<rparr>)
        demo_supervision demo_X (Some demo_buffer) None) = Some (Fin (- 40))
   \<and> map_option (\<lambda>r. map_option (\<lambda>D. (elem D 0 0, elem D 1 1)) (nnet_output_deriv r))
        (ComputeChainObjfAndDeriv demo_opts (demo_cmp\<lparr>den_Forward := PInf\<rparr>)
           demo_supervision demo_X (Some demo_buffer) None)
      = Some (Some (Fin (- (1 / 5)), Fin (- (4 / 5))))"
  by (simp add: ComputeChainObjfAndDeriv_def Chain_compute_def failure_block_def l2_block_def
        l2_penalty_def TraceMatMat_trans_self AddMat_def same_dim_def denominator_backward_def
        SetZero_def compute_weight_def int32_to_float_def fsub_def is_finite_def demo_defs)

text \<open>
  C2. Whenever one of the four drivers returns, the out-parameter \<open>weight\<close> is
  \<open>supervision.weight * supervision.num_sequences * supervision.frames_per_sequence\<close>;
  and each driver does return when the buffers it is given have the size of the scores
  (for the KL driver, when its assertions hold and the targets have the columns of the
  scores; for the SMBR driver, when the silence indices fit).
\<close>

theorem weight_is_weight_times_sequences_times_frames:
  fixes supervision :: Supervision
  defines "W \<equiv> fmul (fmul (weight supervision) (int32_to_float (num_sequences supervision)))
                     (int32_to_float (frames_per_sequence supervision))"
  shows "(\<forall>r. ComputeChainObjfAndDeriv opts cmp supervision X deriv xent = Some r
              \<longrightarrow> tot_weight r = W)
       \<and> (\<forall>r. ComputeChainObjfAndDerivE2e opts cmp supervision X deriv xent = Some r
              \<longrightarrow> tot_weight r = W)
       \<and> (\<forall>r. ComputeKLObjfAndDeriv opts cmp supervision X deriv xent = Some r
              \<longrightarrow> tot_weight r = W)
       \<and> (\<forall>r. ComputeChainSmbrObjfAndDeriv opts cmp supervision X deriv xent sil_indices = Some r
              \<longrightarrow> tot_weight r = W)
       \<and> (deriv_fits X deriv \<longrightarrow>
            ComputeChainObjfAndDeriv opts cmp supervision X deriv xent \<noteq> None
          \<and> ComputeChainObjfAndDerivE2e opts cmp supervision X deriv xent \<noteq> None)
       \<and> (deriv_fits X deriv \<and> KL_asserts supervision X
          \<and> (deriv \<noteq> None \<or> xent \<noteq> None \<longrightarrow>
                NumCols (numerator_post_targets supervision) = NumCols X) \<longrightarrow>
            ComputeKLObjfAndDeriv opts cmp supervision X deriv xent \<noteq> None)
       \<and> (deriv_fits X deriv \<and> deriv_fits X xent \<and> sil_fits opts X sil_indices \<longrightarrow>
            ComputeChainSmbrObjfAndDeriv opts cmp supervision X deriv xent sil_indices \<noteq> None)"
proof -
  have W: "compute_weight supervision = W"
    by (simp add: W_def compute_weight_def)
  have e2e: "tot_weight r = W"
    if "ComputeChainObjfAndDerivE2e opts cmp supervision X deriv xent = Some r" for r
    using that
    by (auto simp: ComputeChainObjfAndDerivE2e_def W[symmetric]
          dest!: l2_block_e2e_keeps E2e_compute_weight split: Option.bind_splits)
  have std: "tot_weight r = W"
    if "ComputeChainObjfAndDeriv opts cmp supervision X deriv xent = Some r" for r
    using that e2e[of r]
    by (auto simp: ComputeChainObjfAndDeriv_def W[symmetric]
          dest!: l2_block_keeps Chain_compute_weight split: Option.bind_splits if_splits)
  have kl: "tot_weight r = W"
    if "ComputeKLObjfAndDeriv opts cmp supervision X deriv xent = Some r" for r
    using that
    by (auto simp: ComputeKLObjfAndDeriv_def W[symmetric]
          dest!: l2_block_keeps KL_compute_weight split: Option.bind_splits)
  have smbr: "tot_weight r = W"
    if "ComputeChainSmbrObjfAndDeriv opts cmp supervision X deriv xent sil_indices = Some r" for r
    using that
    by (auto simp: ComputeChainSmbrObjfAndDeriv_def W[symmetric]
          dest!: l2_block_smbr_keeps Smbr_compute_weight split: Option.bind_splits)
  have ret_e2e: "ComputeChainObjfAndDerivE2e opts cmp supervision X deriv xent \<noteq> None"
    if "deriv_fits X deriv"
    using E2e_compute_total[OF that, of cmp supervision xent]
    by (auto simp: ComputeChainObjfAndDerivE2e_def l2_block_e2e_total)
  have ret_std: "ComputeChainObjfAndDeriv opts cmp supervision X deriv xent \<noteq> None"
    if "deriv_fits X deriv"
    using Chain_compute_total[OF that, of cmp supervision xent] ret_e2e[OF that]
    by (auto simp: ComputeChainObjfAndDeriv_def l2_block_total)
  have ret_kl: "ComputeKLObjfAndDeriv opts cmp supervision X deriv xent \<noteq> None"
    if "deriv_fits X deriv" "KL_asserts supervision X"
       "deriv \<noteq> None \<or> xent \<noteq> None \<longrightarrow>
          NumCols (numerator_post_targets supervision) = NumCols X"
    using KL_compute_total[OF that(2,1,3), of cmp]
    by (auto simp: ComputeKLObjfAndDeriv_def l2_block_total)
  have ret_smbr:
    "ComputeChainSmbrObjfAndDeriv opts cmp supervision X deriv xent sil_indices \<noteq> None"
    if "deriv_fits X deriv" "deriv_fits X xent" "sil_fits opts X sil_indices"
    using Smbr_compute_total[OF that, of cmp supervision]
    by (auto simp: ComputeChainSmbrObjfAndDeriv_def l2_block_smbr_total)
  show ?thesis
    using e2e std kl smbr ret_e2e ret_std ret_kl ret_smbr by blast
qed

theorem weight_is_weight_times_sequences_times_frames_witness:
  "map_option tot_weight (ComputeChainObjfAndDeriv demo_opts demo_cmp demo_supervision demo_X
       (Some demo_buffer) (Some demo_buffer)) = Some (Fin 4)
   \<and> map_option tot_weight (ComputeChainObjfAndDerivE2e demo_opts demo_cmp demo_supervision
       demo_X (Some demo_buffer) (Some demo_buffer)) = Some (Fin 4)
   \<and> map_option tot_weight (ComputeKLObjfAndDeriv demo_opts demo_cmp demo_supervision demo_X
       (Some demo_buffer) (Some demo_buffer)) = Some (Fin 4)
   \<and> map_option tot_weight (ComputeChainSmbrObjfAndDeriv demo_opts demo_cmp demo_supervision
       demo_X (Some demo_buffer) (Some demo_buffer) (Some [- 1, 1])) = Some (Fin 4)"
proof -
  have fits: "deriv_fits demo_X (Some demo_buffer)"
    by (simp add: deriv_fits_def same_dim_def demo_defs)
  have kl: "KL_asserts demo_supervision demo_X"
           "NumCols (numerator_post_targets demo_supervision) = NumCols demo_X"
    by (simp_all add: KL_asserts_def int32_mul_def demo_defs)
  have sil: "sil_fits demo_opts demo_X (Some [- 1, 1])"
    by (simp add: sil_fits_def demo_defs)
  have W: "fmul (fmul (weight demo_supervision) (int32_to_float (num_sequences demo_supervision)))
                (int32_to_float (frames_per_sequence demo_supervision)) = Fin 4"
    by (simp add: demo_defs int32_to_float_def)
  show ?thesis
    using fits kl sil
      weight_is_weight_times_sequences_times_frames[of demo_opts demo_cmp demo_supervision
        demo_X "Some demo_buffer" "Some demo_buffer" "Some [- 1, 1]", unfolded W]
    by auto
qed

text \<open>
  C3. When no failure occurs (the denominator's \<open>Backward\<close> returned true, on the e2e
  path the generic numerator's \<open>Forward\<close> was finite and its \<open>Backward\<close> returned true,
  and the objective is in the range of a float), ComputeChainObjfAndDeriv returns as
  objective the weighted numerator log-likelihood minus \<open>supervision.weight\<close> times the
  denominator log-likelihood, and ComputeKLObjfAndDeriv returns minus
  \<open>supervision.weight\<close> times the denominator log-likelihood; the KL driver's result is
  the same whatever the numerator computations would give.
\<close>

theorem objf_is_numerator_minus_weighted_denominator:
  fixes supervision :: Supervision and cmp :: computations and X :: CuMatrix
    and deriv :: "CuMatrix option" and xent :: "CuMatrix option"
  defines "den_ok \<equiv> (case deriv of None \<Rightarrow> True
                      | Some D \<Rightarrow> fst (den_Backward cmp (fneg (weight supervision))
                                                    (SetZero D)))"
      and "num_ok \<equiv>
             (is_finite (gen_Forward cmp)
              \<and> (case xent of
                    Some Xe \<Rightarrow> fst (gen_Backward cmp (Resize (NumRows X) (NumCols X)))
                  | None \<Rightarrow>
                     (case deriv of
                        None \<Rightarrow> True
                      | Some D \<Rightarrow>
                          fst (gen_Backward cmp
                                ((SetZero D)\<lparr>elem := snd (den_Backward cmp
                                          (fneg (weight supervision)) (SetZero D))\<rparr>)))))"
  shows
   "(deriv_fits X deriv \<longrightarrow>
      (\<exists>r. ComputeChainObjfAndDeriv opts cmp supervision X deriv xent = Some r
         \<and> (in_float_range (fmul (weight supervision) (den_Forward cmp))
            \<and> in_float_range
                 (fsub (if e2e supervision then gen_Forward cmp else num_Forward cmp)
                       (fmul (weight supervision) (den_Forward cmp)))
            \<and> den_ok \<and> (e2e supervision \<longrightarrow> num_ok) \<longrightarrow>
              objf r = fsub (if e2e supervision then gen_Forward cmp else num_Forward cmp)
                            (fmul (weight supervision) (den_Forward cmp)))))
   \<and> (deriv_fits X deriv \<and> KL_asserts supervision X
      \<and> (deriv \<noteq> None \<or> xent \<noteq> None \<longrightarrow>
            NumCols (numerator_post_targets supervision) = NumCols X) \<longrightarrow>
      (\<exists>r. ComputeKLObjfAndDeriv opts cmp supervision X deriv xent = Some r
         \<and> (in_float_range (fmul (weight supervision) (den_Forward cmp)) \<and> den_ok \<longrightarrow>
              objf r = fneg (fmul (weight supervision) (den_Forward cmp)))))
   \<and> ComputeKLObjfAndDeriv opts
        (cmp\<lparr>num_Forward := nf, num_Backward := nb, gen_Forward := gf, gen_Backward := gb\<rparr>)
        supervision X deriv xent
      = ComputeKLObjfAndDeriv opts cmp supervision X deriv xent"
proof (intro conjI impI)
  assume fits: "deriv_fits X deriv"
  show "\<exists>r. ComputeChainObjfAndDeriv opts cmp supervision X deriv xent = Some r
         \<and> (in_float_range (fmul (weight supervision) (den_Forward cmp))
            \<and> in_float_range
                 (fsub (if e2e supervision then gen_Forward cmp else num_Forward cmp)
                       (fmul (weight supervision) (den_Forward cmp)))
            \<and> den_ok \<and> (e2e supervision \<longrightarrow> num_ok) \<longrightarrow>
              objf r = fsub (if e2e supervision then gen_Forward cmp else num_Forward cmp)
                            (fmul (weight supervision) (den_Forward cmp)))"
  proof (cases "e2e supervision")
    case True
    obtain s where s: "E2e_compute cmp supervision X deriv xent = Some s"
       "st_objf s = fsub (gen_Forward cmp) (fmul (weight supervision) (den_Forward cmp))"
       "deriv_fits X (st_deriv s)"
       "st_denominator_ok s = fst (denominator_backward cmp (fneg (weight supervision))
                                                       (map_option SetZero deriv))"
      using E2e_compute_total[OF fits, of cmp supervision xent] by blast
    have flags: "st_denominator_ok s = den_ok" "st_numerator_ok s = num_ok"
      using E2e_compute_numerator_ok[OF fits s(1)]
      by (simp_all add: s(4) denominator_backward_ok den_ok_def num_ok_def)
    show ?thesis
      using True s(1,2,3) flags
      by (auto simp: ComputeChainObjfAndDeriv_def ComputeChainObjfAndDerivE2e_def
            l2_block_e2e_total failure_block_e2e_ok dest: in_float_range_finite
            simp del: fsub_self)
  next
    case False
    obtain s where s: "Chain_compute cmp supervision X deriv xent = Some s"
       "st_objf s = fsub (num_Forward cmp) (fmul (weight supervision) (den_Forward cmp))"
       "deriv_fits X (st_deriv s)"
       "st_denominator_ok s = fst (denominator_backward cmp (fneg (weight supervision))
                                                       (map_option SetZero deriv))"
      using Chain_compute_total[OF fits, of cmp supervision xent] by blast
    have flags: "st_denominator_ok s = den_ok"
      by (simp add: s(4) denominator_backward_ok den_ok_def)
    show ?thesis
      using False s(1,2,3) flags
      by (auto simp: ComputeChainObjfAndDeriv_def l2_block_total failure_block_ok
            dest: in_float_range_finite simp del: fsub_self)
  qed
next
  assume kl: "deriv_fits X deriv \<and> KL_asserts supervision X
      \<and> (deriv \<noteq> None \<or> xent \<noteq> None \<longrightarrow>
            NumCols (numerator_post_targets supervision) = NumCols X)"
  obtain s where s: "KL_compute cmp supervision X deriv xent = Some s"
       "st_objf s = fneg (fmul (weight supervision) (den_Forward cmp))"
       "deriv_fits X (st_deriv s)"
    using KL_compute_total[of supervision X deriv xent cmp] kl by blast
  have ok: "st_denominator_ok s = den_ok"
    using s(1) kl
    by (cases deriv)
       (auto simp: KL_compute_def denominator_backward_def den_ok_def Let_def
          split: if_splits prod.splits Option.bind_splits)
  have fin: "is_finite (fneg (fmul (weight supervision) (den_Forward cmp)))"
    if "in_float_range (fmul (weight supervision) (den_Forward cmp))"
    using in_float_range_finite[OF that]
    by (cases "fmul (weight supervision) (den_Forward cmp)") (simp_all add: is_finite_def)
  show "\<exists>r. ComputeKLObjfAndDeriv opts cmp supervision X deriv xent = Some r
         \<and> (in_float_range (fmul (weight supervision) (den_Forward cmp)) \<and> den_ok \<longrightarrow>
              objf r = fneg (fmul (weight supervision) (den_Forward cmp)))"
    using s ok fin
    by (auto simp: ComputeKLObjfAndDeriv_def l2_block_total failure_block_ok)
next
  show "ComputeKLObjfAndDeriv opts
        (cmp\<lparr>num_Forward := nf, num_Backward := nb, gen_Forward := gf, gen_Backward := gb\<rparr>)
        supervision X deriv xent
      = ComputeKLObjfAndDeriv opts cmp supervision X deriv xent"
  proof -
    have "KL_compute (cmp\<lparr>num_Forward := nf, num_Backward := nb, gen_Forward := gf,
                          gen_Backward := gb\<rparr>) supervision X deriv xent
          = KL_compute cmp supervision X deriv xent"
    proof -
      have sel: "den_Backward (cmp\<lparr>num_Forward := nf, num_Backward := nb, gen_Forward := gf,
                          gen_Backward := gb\<rparr>) = den_Backward cmp"
                "den_Forward (cmp\<lparr>num_Forward := nf, num_Backward := nb, gen_Forward := gf,
                          gen_Backward := gb\<rparr>) = den_Forward cmp"
        by simp_all
      show ?thesis
        unfolding KL_compute_def denominator_backward_def sel by (rule refl)
    qed
    then show ?thesis
      by (simp add: ComputeKLObjfAndDeriv_def)
  qed
qed

theorem objf_is_numerator_minus_weighted_denominator_witness:
  "deriv_fits demo_X (Some demo_buffer)
   \<and> KL_asserts demo_supervision demo_X
   \<and> NumCols (numerator_post_targets demo_supervision) = NumCols demo_X
   \<and> map_option objf (ComputeChainObjfAndDeriv demo_opts demo_cmp demo_supervision demo_X
        (Some demo_buffer) (Some demo_buffer)) = Some (Fin (- 7))
   \<and> map_option objf (ComputeChainObjfAndDeriv demo_opts (demo_cmp\<lparr>gen_Forward := Fin (- 2)\<rparr>)
        (demo_supervision\<lparr>e2e := True\<rparr>) demo_X (Some demo_buffer) (Some demo_buffer))
      = Some (Fin (- 8))
   \<and> map_option objf (ComputeChainObjfAndDeriv demo_opts (demo_cmp\<lparr>gen_Forward := Fin (- 2)\<rparr>)
        (demo_supervision\<lparr>e2e := True\<rparr>) demo_X (Some demo_buffer) None)
      = Some (Fin (- 8))
   \<and> map_option objf (ComputeKLObjfAndDeriv demo_opts demo_cmp demo_supervision demo_X
        (Some demo_buffer) (Some demo_buffer)) = Some (Fin (- 6))"
proof -
  note fits = demo_fits(1) and kl = demo_fits(2,3)
  note run = objf_is_numerator_minus_weighted_denominator[where X = demo_X
        and deriv = "Some demo_buffer" and opts = demo_opts and nf = "Fin 0"
        and nb = "\<lambda>D. elem D" and gf = "Fin 0" and gb = "\<lambda>D. (True, elem D)"]
  have a: "map_option objf (ComputeChainObjfAndDeriv demo_opts demo_cmp demo_supervision demo_X
        (Some demo_buffer) (Some demo_buffer)) = Some (Fin (- 7))"
    using run[where cmp = demo_cmp and supervision = demo_supervision
              and xent = "Some demo_buffer"] fits
    by (auto simp: demo_defs in_float_range_def FLT_MAX_def fsub_def)
  have b: "map_option objf (ComputeChainObjfAndDeriv demo_opts (demo_cmp\<lparr>gen_Forward := Fin (- 2)\<rparr>)
        (demo_supervision\<lparr>e2e := True\<rparr>) demo_X (Some demo_buffer) (Some demo_buffer))
      = Some (Fin (- 8))"
    using run[where cmp = "demo_cmp\<lparr>gen_Forward := Fin (- 2)\<rparr>"
              and supervision = "demo_supervision\<lparr>e2e := True\<rparr>"
              and xent = "Some demo_buffer"] fits
    by (auto simp: demo_defs in_float_range_def FLT_MAX_def fsub_def is_finite_def)
  have c: "map_option objf (ComputeChainObjfAndDeriv demo_opts (demo_cmp\<lparr>gen_Forward := Fin (- 2)\<rparr>)
        (demo_supervision\<lparr>e2e := True\<rparr>) demo_X (Some demo_buffer) None)
      = Some (Fin (- 8))"
    using run[where cmp = "demo_cmp\<lparr>gen_Forward := Fin (- 2)\<rparr>"
              and supervision = "demo_supervision\<lparr>e2e := True\<rparr>"
              and xent = None] fits
    by (auto simp: demo_defs in_float_range_def FLT_MAX_def fsub_def is_finite_def)
  have d: "map_option objf (ComputeKLObjfAndDeriv demo_opts demo_cmp demo_supervision demo_X
        (Some demo_buffer) (Some demo_buffer)) = Some (Fin (- 6))"
    using run[where cmp = demo_cmp and supervision = demo_supervision
              and xent = "Some demo_buffer"] fits kl
    by (auto simp: demo_defs in_float_range_def FLT_MAX_def)
  show ?thesis
    using fits kl a b c d by simp
qed

text \<open>
  C4. When no failure occurs, ComputeChainSmbrObjfAndDeriv returns as \<open>objf\<close> the
  supervision weight times the SMBR forward result, and as \<open>mmi_objf\<close> the supervision
  weight times the negated denominator log-likelihood plus \<open>opts.mmi_factor\<close> times the
  numerator forward log-likelihood; both forward results are those of the SMBR
  computation on the accuracy posteriors.
\<close>

theorem smbr_objf_and_mmi_objf:
  assumes "deriv_fits X deriv" "deriv_fits X xent" "sil_fits opts X sil_indices"
  shows "\<exists>A s r.
       Smbr_silence opts X sil_indices (numerator_posteriors cmp X) = Some A
     \<and> Smbr_compute opts cmp supervision X deriv xent sil_indices = Some s
     \<and> ComputeChainSmbrObjfAndDeriv opts cmp supervision X deriv xent sil_indices = Some r
     \<and> (is_finite (fadd (st_objf s) (st_mmi_objf s)) \<and> st_denominator_ok s \<longrightarrow>
          objf r = fmul (weight supervision) (fst (ForwardSmbr cmp A))
        \<and> mmi_objf r = fadd (fmul (weight supervision) (snd (ForwardSmbr cmp A)))
                             (fmul (mmi_factor opts) (num_Forward cmp)))"
proof -
  obtain A d1 where A: "Smbr_silence opts X sil_indices (numerator_posteriors cmp X) = Some A"
     "deriv_fits X d1"
     "Smbr_compute opts cmp supervision X deriv xent sil_indices =
         Some (Smbr_denominator opts cmp supervision
                 (fmul (mmi_factor opts) (num_Forward cmp)) A d1
                 (map_option (\<lambda>Xe. Xe\<lparr>elem := elem (numerator_posteriors cmp X)\<rparr>) xent))"
    using Smbr_compute_total[OF assms, of cmp supervision] by blast
  show ?thesis
    using A
    by (auto simp: ComputeChainSmbrObjfAndDeriv_def l2_block_smbr_total failure_block_smbr_ok)
qed

theorem smbr_objf_and_mmi_objf_witness:
  "deriv_fits demo_X (Some demo_buffer)
   \<and> sil_fits demo_opts demo_X None
   \<and> map_option objf (ComputeChainSmbrObjfAndDeriv demo_opts demo_cmp demo_supervision demo_X
        (Some demo_buffer) (Some demo_buffer) None) = Some (Fin 6)
   \<and> map_option mmi_objf (ComputeChainSmbrObjfAndDeriv demo_opts demo_cmp demo_supervision
        demo_X (Some demo_buffer) (Some demo_buffer) None) = Some (Fin (- 7))"
proof -
  have fits: "deriv_fits demo_X (Some demo_buffer)"
    by (simp add: deriv_fits_def same_dim_def demo_defs)
  have sil: "sil_fits demo_opts demo_X None"
    by (simp add: sil_fits_def)
  have A: "Smbr_silence demo_opts demo_X None P = Some P" for P
    by (simp add: Smbr_silence_def)
  have run: "Smbr_compute demo_opts cmp demo_supervision demo_X
              (Some demo_buffer) (Some demo_buffer) None
      = Some (Smbr_denominator demo_opts cmp demo_supervision
                (fmul (mmi_factor demo_opts) (num_Forward cmp)) (numerator_posteriors cmp demo_X)
                (if mmi_factor demo_opts = Fin 0 then Some demo_buffer
                 else Some (Scale (demo_buffer\<lparr>elem := elem (numerator_posteriors cmp demo_X)\<rparr>)
                                  (mmi_factor demo_opts)))
                (Some (demo_buffer\<lparr>elem := elem (numerator_posteriors cmp demo_X)\<rparr>)))" for cmp
    by (simp add: Smbr_compute_def Smbr_numerator_total[OF fits fits] A)
  have st: "is_finite (fadd (st_objf s) (st_mmi_objf s)) \<and> st_denominator_ok s"
    if "Smbr_compute demo_opts demo_cmp demo_supervision demo_X
              (Some demo_buffer) (Some demo_buffer) None = Some s" for s
    using that unfolding run
    by (auto simp: Smbr_denominator_def numerator_posteriors_def Resize_def Scale_def
          is_finite_def demo_defs)
  obtain B s r where
        b: "Smbr_silence demo_opts demo_X None (numerator_posteriors demo_cmp demo_X) = Some B"
    and s: "Smbr_compute demo_opts demo_cmp demo_supervision demo_X
              (Some demo_buffer) (Some demo_buffer) None = Some s"
    and r: "ComputeChainSmbrObjfAndDeriv demo_opts demo_cmp demo_supervision demo_X
              (Some demo_buffer) (Some demo_buffer) None = Some r"
    and ok: "is_finite (fadd (st_objf s) (st_mmi_objf s)) \<and> st_denominator_ok s \<longrightarrow>
          objf r = fmul (weight demo_supervision) (fst (ForwardSmbr demo_cmp B))
        \<and> mmi_objf r = fadd (fmul (weight demo_supervision) (snd (ForwardSmbr demo_cmp B)))
                             (fmul (mmi_factor demo_opts) (num_Forward demo_cmp))"
    using smbr_objf_and_mmi_objf[OF fits fits sil, of demo_cmp demo_supervision] by blast
  have B: "B = numerator_posteriors demo_cmp demo_X"
    using b by (simp add: A)
  have "objf r = fmul (weight demo_supervision) (fst (ForwardSmbr demo_cmp B))"
       "mmi_objf r = fadd (fmul (weight demo_supervision) (snd (ForwardSmbr demo_cmp B)))
                             (fmul (mmi_factor demo_opts) (num_Forward demo_cmp))"
    using ok st[OF s] by simp_all
  then have "objf r = Fin 6" "mmi_objf r = Fin (- 7)"
    by (simp_all add: B numerator_posteriors_def Resize_def demo_defs)
  then show ?thesis
    using fits sil r by simp
qed

text \<open>
  C5, as amended. ComputeChainSmbrObjfAndDeriv returns whenever the buffers and the
  silence indices fit. When \<open>objf + mmi_objf\<close> is not finite or \<open>BackwardSmbr\<close> returned
  false, \<open>mmi_objf\<close> is returned as \<open>-opts.mmi_factor * 10 * weight\<close>, \<open>objf\<close> as zero and
  the cross-entropy buffer zero. The gradient buffer is returned zero when
  \<open>opts.l2_regularize\<close> is zero; otherwise it is returned holding \<open>-1.0 *
  (supervision.weight * opts.l2_regularize)\<close> times the scores (with
  \<open>norm_regularize\<close>, times their exponentials), which the regularizer block adds
  after the failure block zeroed the buffer.
\<close>

theorem smbr_failure_substitutes_mmi_objf_and_returns_zero_or_regularizer_derivative:
  fixes supervision :: Supervision and cmp :: computations and X :: CuMatrix
    and opts :: ChainTrainingOptions and deriv :: "CuMatrix option"
  defines "W \<equiv> fmul (fmul (weight supervision) (int32_to_float (num_sequences supervision)))
                     (int32_to_float (frames_per_sequence supervision))"
      and "d1 \<equiv> (if mmi_factor opts = Fin 0 then deriv
                 else map_option (\<lambda>D. Scale (D\<lparr>elem := elem (numerator_posteriors cmp X)\<rparr>)
                                             (mmi_factor opts)) deriv)"
  assumes fits: "deriv_fits X deriv" "deriv_fits X xent" "sil_fits opts X sil_indices"
  shows "\<exists>A r.
       Smbr_silence opts X sil_indices (numerator_posteriors cmp X) = Some A
     \<and> ComputeChainSmbrObjfAndDeriv opts cmp supervision X deriv xent sil_indices = Some r
     \<and> tot_weight r = W
     \<and> (\<not> is_finite (fadd (fmul (weight supervision) (fst (ForwardSmbr cmp A)))
                            (fadd (fmul (weight supervision) (snd (ForwardSmbr cmp A)))
                                  (fmul (mmi_factor opts) (num_Forward cmp))))
          \<or> \<not> (case d1 of None \<Rightarrow> True
                 | Some D \<Rightarrow> fst (BackwardSmbr cmp A (weight supervision)
                                   (if mmi_factor opts = Fin 0 then SetZero D else D))) \<longrightarrow>
          mmi_objf r = fmul (fmul (fneg (mmi_factor opts)) (Fin 10)) W
        \<and> objf r = Fin 0
        \<and> xent_output_deriv r = map_option SetZero xent
        \<and> nnet_output_deriv r =
            (if l2_regularize opts = Fin 0 then map_option SetZero deriv
             else map_option (\<lambda>D. D\<lparr>elem := (\<lambda>i j.
                    fmul (fmul (Fin (- 1)) (fmul (weight supervision) (l2_regularize opts)))
                         (elem (if \<not> norm_regularize opts then X else ApplyExp X) i j))\<rparr>)
                    deriv))"
proof -
  obtain A d1' where A:
     "map_option SetZero d1' = map_option SetZero deriv"
     "deriv_fits X d1'"
     "Smbr_compute opts cmp supervision X deriv xent sil_indices =
         Some (Smbr_denominator opts cmp supervision
                 (fmul (mmi_factor opts) (num_Forward cmp)) A d1'
                 (map_option (\<lambda>Xe. Xe\<lparr>elem := elem (numerator_posteriors cmp X)\<rparr>) xent))"
     "Smbr_silence opts X sil_indices (numerator_posteriors cmp X) = Some A"
     "d1' = (if mmi_factor opts = Fin 0 then deriv
             else map_option (\<lambda>D. Scale (D\<lparr>elem := elem (numerator_posteriors cmp X)\<rparr>)
                                         (mmi_factor opts)) deriv)"
    using Smbr_compute_total[OF fits, of cmp supervision] by blast
  have d1: "d1' = d1"
    by (simp add: A(5) d1_def)
  have zx: "map_option SetZero (map_option (\<lambda>Xe. Xe\<lparr>elem := e\<rparr>) xent)
              = map_option SetZero xent" for e
    by (cases xent) (simp_all add: SetZero_def)
  define s where "s = Smbr_denominator opts cmp supervision
                 (fmul (mmi_factor opts) (num_Forward cmp)) A d1'
                 (map_option (\<lambda>Xe. Xe\<lparr>elem := elem (numerator_posteriors cmp X)\<rparr>) xent)"
  have run: "Smbr_compute opts cmp supervision X deriv xent sil_indices = Some s"
    by (simp add: A(3) s_def)
  have W: "compute_weight supervision = W"
    by (simp add: W_def compute_weight_def)
  have fields: "st_weight s = W"
      "st_objf s = fmul (weight supervision) (fst (ForwardSmbr cmp A))"
      "st_mmi_objf s = fadd (fmul (weight supervision) (snd (ForwardSmbr cmp A)))
                            (fmul (mmi_factor opts) (num_Forward cmp))"
      "st_denominator_ok s
         = (case d1 of None \<Rightarrow> True
            | Some D \<Rightarrow> fst (BackwardSmbr cmp A (weight supervision)
                              (if mmi_factor opts = Fin 0 then SetZero D else D)))"
      "map_option SetZero (st_deriv s) = map_option SetZero deriv"
      "map_option SetZero (st_xent s) = map_option SetZero xent"
      "deriv_fits X (st_deriv s)"
    by (simp_all add: s_def A(1,2) zx W d1[symmetric])
  have fin: "ComputeChainSmbrObjfAndDeriv opts cmp supervision X deriv xent sil_indices
               = l2_block_smbr opts supervision X (failure_block_smbr opts s)"
    by (simp add: ComputeChainSmbrObjfAndDeriv_def run)
  show ?thesis
    using A(4) fields(7)
    by (auto simp: fin l2_block_smbr_total failure_block_smbr_failed fields(1-6)
          SetZero_plus_scaled)
qed

theorem smbr_failure_substitutes_mmi_objf_and_returns_zero_or_regularizer_derivative_witness:
  "deriv_fits demo_X (Some demo_buffer)
   \<and> sil_fits demo_opts demo_X None
   \<and> map_option mmi_objf (ComputeChainSmbrObjfAndDeriv demo_opts
        (demo_cmp\<lparr>BackwardSmbr := (\<lambda>P w D. (False, elem D))\<rparr>) demo_supervision demo_X
        (Some demo_buffer) (Some demo_buffer) None) = Some (Fin (- 40))
   \<and> map_option objf (ComputeChainSmbrObjfAndDeriv demo_opts
        (demo_cmp\<lparr>BackwardSmbr := (\<lambda>P w D. (False, elem D))\<rparr>) demo_supervision demo_X
        (Some demo_buffer) (Some demo_buffer) None) = Some (Fin 0)
   \<and> map_option xent_output_deriv (ComputeChainSmbrObjfAndDeriv demo_opts
        (demo_cmp\<lparr>BackwardSmbr := (\<lambda>P w D. (False, elem D))\<rparr>) demo_supervision demo_X
        (Some demo_buffer) (Some demo_buffer) None) = Some (Some (Resize 2 2))
   \<and> map_option mmi_objf (ComputeChainSmbrObjfAndDeriv demo_opts
        (demo_cmp\<lparr>ForwardSmbr := (\<lambda>P. (PInf, Fin (- 3)))\<rparr>) demo_supervision demo_X
        (Some demo_buffer) (Some demo_buffer) None) = Some (Fin (- 40))
   \<and> map_option objf (ComputeChainSmbrObjfAndDeriv demo_opts
        (demo_cmp\<lparr>ForwardSmbr := (\<lambda>P. (PInf, Fin (- 3)))\<rparr>) demo_supervision demo_X
        (Some demo_buffer) (Some demo_buffer) None) = Some (Fin 0)"
proof -
  have fits: "deriv_fits demo_X (Some demo_buffer)"
    and sil: "sil_fits demo_opts demo_X None"
    by (rule demo_fits)+
  note run = smbr_failure_substitutes_mmi_objf_and_returns_zero_or_regularizer_derivative[
        OF fits fits sil, where supervision = demo_supervision]
  have a: "map_option mmi_objf (ComputeChainSmbrObjfAndDeriv demo_opts
        (demo_cmp\<lparr>BackwardSmbr := (\<lambda>P w D. (False, elem D))\<rparr>) demo_supervision demo_X
        (Some demo_buffer) (Some demo_buffer) None) = Some (Fin (- 40))"
     "map_option objf (ComputeChainSmbrObjfAndDeriv demo_opts
        (demo_cmp\<lparr>BackwardSmbr := (\<lambda>P w D. (False, elem D))\<rparr>) demo_supervision demo_X
        (Some demo_buffer) (Some demo_buffer) None) = Some (Fin 0)"
     "map_option xent_output_deriv (ComputeChainSmbrObjfAndDeriv demo_opts
        (demo_cmp\<lparr>BackwardSmbr := (\<lambda>P w D. (False, elem D))\<rparr>) demo_supervision demo_X
        (Some demo_buffer) (Some demo_buffer) None) = Some (Some (Resize 2 2))"
    using run[where cmp = "demo_cmp\<lparr>BackwardSmbr := (\<lambda>P w D. (False, elem D))\<rparr>"]
    by (auto simp: demo_defs int32_to_float_def SetZero_def Resize_def)
  have b: "map_option mmi_objf (ComputeChainSmbrObjfAndDeriv demo_opts
        (demo_cmp\<lparr>ForwardSmbr := (\<lambda>P. (PInf, Fin (- 3)))\<rparr>) demo_supervision demo_X
        (Some demo_buffer) (Some demo_buffer) None) = Some (Fin (- 40))"
     "map_option objf (ComputeChainSmbrObjfAndDeriv demo_opts
        (demo_cmp\<lparr>ForwardSmbr := (\<lambda>P. (PInf, Fin (- 3)))\<rparr>) demo_supervision demo_X
        (Some demo_buffer) (Some demo_buffer) None) = Some (Fin 0)"
    using run[where cmp = "demo_cmp\<lparr>ForwardSmbr := (\<lambda>P. (PInf, Fin (- 3)))\<rparr>"]
    by (auto simp: demo_defs int32_to_float_def is_finite_def)
  show ?thesis
    using fits sil a b by simp
qed

text \<open>
  C5 as stated fails when \<open>opts.l2_regularize\<close> is nonzero: after \<open>BackwardSmbr\<close>
  returned false, \<open>mmi_objf\<close> is \<open>-40\<close> and \<open>objf\<close> is zero, and the gradient buffer
  is returned with \<open>-0.2\<close> times the scores, not zero.
\<close>

theorem smbr_failure_returns_zero_buffers_counterexample:
  "\<not> fst (BackwardSmbr (demo_cmp\<lparr>BackwardSmbr := (\<lambda>P w D. (False, elem D))\<rparr>)
             demo_X (Fin 2) demo_buffer)
   \<and> map_option mmi_objf (ComputeChainSmbrObjfAndDeriv demo_opts
        (demo_cmp\<lparr>BackwardSmbr := (\<lambda>P w D. (False, elem D))\<rparr>) demo_supervision demo_X
        (Some demo_buffer) None None) = Some (Fin (- 40))
   \<and> map_option (\<lambda>r. map_option (\<lambda>D. (elem D 0 0, elem D 1 1)) (nnet_output_deriv r))
        (ComputeChainSmbrObjfAndDeriv demo_opts
           (demo_cmp\<lparr>BackwardSmbr := (\<lambda>P w D. (False, elem D))\<rparr>) demo_supervision demo_X
           (Some demo_buffer) None None)
      = Some (Some (Fin (- (1 / 5)), Fin (- (4 / 5))))"
  by (simp add: ComputeChainSmbrObjfAndDeriv_def Smbr_compute_def Smbr_numerator_def
        Smbr_silence_def Smbr_denominator_def failure_block_smbr_def l2_block_smbr_def
        l2_penalty_def TraceMatMat_trans_self AddMat_def CopyFromMat_def Scale_def same_dim_def
        SetZero_def Resize_def Let_def compute_weight_def int32_to_float_def demo_defs)

text \<open>
  C6, as amended. In ComputeChainObjfAndDeriv outside the e2e path, in
  ComputeKLObjfAndDeriv, in ComputeChainSmbrObjfAndDeriv without \<open>norm_regularize\<close>,
  and in ComputeChainObjfAndDerivE2e when the generic numerator succeeded: with
  \<open>lambda = opts.l2_regularize\<close> nonzero, \<open>l2_term\<close> is \<open>-0.5 * (supervision.weight *
  lambda)\<close> times the squared Frobenius norm of the scores, and the gradient buffer,
  when provided, is returned as the failure block left it with \<open>-1.0 *
  (supervision.weight * lambda)\<close> times the scores added; with \<open>lambda\<close> zero,
  \<open>l2_term\<close> is zero and the buffer is as the failure block left it, in every
  driver.
\<close>

theorem l2_term_and_derivative:
  fixes supervision :: Supervision and opts :: ChainTrainingOptions and X :: CuMatrix
  defines "L \<equiv> fmul (fmul (Fin (- (1 / 2))) (fmul (weight supervision) (l2_regularize opts)))
                     (squared_frobenius_norm X)"
      and "G \<equiv> plus_scaled (fmul (Fin (- 1)) (fmul (weight supervision) (l2_regularize opts))) X"
  shows
   "(deriv_fits X deriv \<and> \<not> e2e supervision \<longrightarrow>
       (\<exists>s r. Chain_compute cmp supervision X deriv xent = Some s
            \<and> ComputeChainObjfAndDeriv opts cmp supervision X deriv xent = Some r
            \<and> l2_term r = (if l2_regularize opts = Fin 0 then Fin 0 else L)
            \<and> nnet_output_deriv r =
                (if l2_regularize opts = Fin 0 then st_deriv (failure_block s)
                 else map_option G (st_deriv (failure_block s)))))
  \<and> (deriv_fits X deriv \<longrightarrow>
       (\<exists>s r. E2e_compute cmp supervision X deriv xent = Some s
            \<and> ComputeChainObjfAndDerivE2e opts cmp supervision X deriv xent = Some r
            \<and> (l2_regularize opts = Fin 0 \<or> st_numerator_ok s \<longrightarrow>
                 l2_term r = (if l2_regularize opts = Fin 0 then Fin 0 else L)
               \<and> nnet_output_deriv r =
                   (if l2_regularize opts = Fin 0 then st_deriv (failure_block_e2e s)
                    else map_option G (st_deriv (failure_block_e2e s))))))
  \<and> (deriv_fits X deriv \<and> KL_asserts supervision X
      \<and> (deriv \<noteq> None \<or> xent \<noteq> None \<longrightarrow>
            NumCols (numerator_post_targets supervision) = NumCols X) \<longrightarrow>
       (\<exists>s r. KL_compute cmp supervision X deriv xent = Some s
            \<and> ComputeKLObjfAndDeriv opts cmp supervision X deriv xent = Some r
            \<and> l2_term r = (if l2_regularize opts = Fin 0 then Fin 0 else L)
            \<and> nnet_output_deriv r =
                (if l2_regularize opts = Fin 0 then st_deriv (failure_block s)
                 else map_option G (st_deriv (failure_block s)))))
  \<and> (deriv_fits X deriv \<and> deriv_fits X xent \<and> sil_fits opts X sil_indices
      \<and> (l2_regularize opts = Fin 0 \<or> \<not> norm_regularize opts) \<longrightarrow>
       (\<exists>s r. Smbr_compute opts cmp supervision X deriv xent sil_indices = Some s
            \<and> ComputeChainSmbrObjfAndDeriv opts cmp supervision X deriv xent sil_indices
                = Some r
            \<and> l2_term r = (if l2_regularize opts = Fin 0 then Fin 0 else L)
            \<and> nnet_output_deriv r =
                (if l2_regularize opts = Fin 0 then st_deriv (failure_block_smbr opts s)
                 else map_option G (st_deriv (failure_block_smbr opts s)))))"
proof (intro conjI impI)
  assume a: "deriv_fits X deriv \<and> \<not> e2e supervision"
  obtain s where s: "Chain_compute cmp supervision X deriv xent = Some s"
       "deriv_fits X (st_deriv s)"
    using Chain_compute_total[of X deriv cmp supervision xent] a by blast
  show "\<exists>s r. Chain_compute cmp supervision X deriv xent = Some s
            \<and> ComputeChainObjfAndDeriv opts cmp supervision X deriv xent = Some r
            \<and> l2_term r = (if l2_regularize opts = Fin 0 then Fin 0 else L)
            \<and> nnet_output_deriv r =
                (if l2_regularize opts = Fin 0 then st_deriv (failure_block s)
                 else map_option G (st_deriv (failure_block s)))"
    using a s by (simp add: ComputeChainObjfAndDeriv_def l2_block_total L_def G_def)
next
  assume a: "deriv_fits X deriv"
  obtain s where s: "E2e_compute cmp supervision X deriv xent = Some s"
       "deriv_fits X (st_deriv s)"
    using E2e_compute_total[OF a, of cmp supervision xent] by blast
  show "\<exists>s r. E2e_compute cmp supervision X deriv xent = Some s
            \<and> ComputeChainObjfAndDerivE2e opts cmp supervision X deriv xent = Some r
            \<and> (l2_regularize opts = Fin 0 \<or> st_numerator_ok s \<longrightarrow>
                 l2_term r = (if l2_regularize opts = Fin 0 then Fin 0 else L)
               \<and> nnet_output_deriv r =
                   (if l2_regularize opts = Fin 0 then st_deriv (failure_block_e2e s)
                    else map_option G (st_deriv (failure_block_e2e s))))"
    using s by (auto simp: ComputeChainObjfAndDerivE2e_def l2_block_e2e_total L_def G_def)
next
  assume a: "deriv_fits X deriv \<and> KL_asserts supervision X
      \<and> (deriv \<noteq> None \<or> xent \<noteq> None \<longrightarrow>
            NumCols (numerator_post_targets supervision) = NumCols X)"
  obtain s where s: "KL_compute cmp supervision X deriv xent = Some s"
       "deriv_fits X (st_deriv s)"
    using KL_compute_total[of supervision X deriv xent cmp] a by blast
  show "\<exists>s r. KL_compute cmp supervision X deriv xent = Some s
            \<and> ComputeKLObjfAndDeriv opts cmp supervision X deriv xent = Some r
            \<and> l2_term r = (if l2_regularize opts = Fin 0 then Fin 0 else L)
            \<and> nnet_output_deriv r =
                (if l2_regularize opts = Fin 0 then st_deriv (failure_block s)
                 else map_option G (st_deriv (failure_block s)))"
    using s by (simp add: ComputeKLObjfAndDeriv_def l2_block_total L_def G_def)
next
  assume a: "deriv_fits X deriv \<and> deriv_fits X xent \<and> sil_fits opts X sil_indices
      \<and> (l2_regularize opts = Fin 0 \<or> \<not> norm_regularize opts)"
  obtain A d1 where s: "deriv_fits X d1"
     "Smbr_compute opts cmp supervision X deriv xent sil_indices =
         Some (Smbr_denominator opts cmp supervision
                 (fmul (mmi_factor opts) (num_Forward cmp)) A d1
                 (map_option (\<lambda>Xe. Xe\<lparr>elem := elem (numerator_posteriors cmp X)\<rparr>) xent))"
    using Smbr_compute_total[of X deriv xent opts sil_indices cmp supervision] a by blast
  show "\<exists>s r. Smbr_compute opts cmp supervision X deriv xent sil_indices = Some s
            \<and> ComputeChainSmbrObjfAndDeriv opts cmp supervision X deriv xent sil_indices
                = Some r
            \<and> l2_term r = (if l2_regularize opts = Fin 0 then Fin 0 else L)
            \<and> nnet_output_deriv r =
                (if l2_regularize opts = Fin 0 then st_deriv (failure_block_smbr opts s)
                 else map_option G (st_deriv (failure_block_smbr opts s)))"
    using a s
    by (auto simp: ComputeChainSmbrObjfAndDeriv_def l2_block_smbr_total L_def G_def)
qed

theorem l2_term_and_derivative_witness:
  "deriv_fits demo_X (Some demo_buffer)
   \<and> KL_asserts demo_supervision demo_X
   \<and> sil_fits demo_opts demo_X None
   \<and> map_option l2_term (ComputeChainObjfAndDeriv demo_opts demo_cmp demo_supervision demo_X
        (Some demo_buffer) (Some demo_buffer)) = Some (Fin (- 3))
   \<and> map_option l2_term (ComputeChainObjfAndDerivE2e demo_opts demo_cmp demo_supervision
        demo_X (Some demo_buffer) (Some demo_buffer)) = Some (Fin (- 3))
   \<and> map_option l2_term (ComputeKLObjfAndDeriv demo_opts demo_cmp demo_supervision demo_X
        (Some demo_buffer) (Some demo_buffer)) = Some (Fin (- 3))
   \<and> map_option l2_term (ComputeChainSmbrObjfAndDeriv demo_opts demo_cmp demo_supervision
        demo_X (Some demo_buffer) (Some demo_buffer) None) = Some (Fin (- 3))"
proof -
  have vals: "l2_regularize demo_opts = Fin (1 / 10)" "\<not> norm_regularize demo_opts"
     "\<not> e2e demo_supervision" "weight demo_supervision = Fin 2"
    by (simp_all add: demo_defs)
  have e2e: "st_numerator_ok s"
    if "E2e_compute demo_cmp demo_supervision demo_X
              (Some demo_buffer) (Some demo_buffer) = Some s" for s
    using that
    by (auto simp: E2e_compute_def demo_defs denominator_backward_def AddMat_def same_dim_def
         Resize_def SetZero_def fsub_def)
  show ?thesis
    using demo_fits e2e
      l2_term_and_derivative[where X = demo_X and deriv = "Some demo_buffer"
        and supervision = demo_supervision and cmp = demo_cmp and xent = "Some demo_buffer"
        and opts = demo_opts and sil_indices = None]
    by (auto simp: vals squared_frobenius_norm_demo_X)
qed

text \<open>
  C6 as stated, for every driver, fails in ComputeChainObjfAndDeriv on the e2e path:
  with \<open>opts.l2_regularize = 0.1\<close>, weight 2 and the scores \<open>1, 2, 3, 4\<close> the L2 penalty
  would be \<open>-3\<close>, and after a generic numerator whose forward log-likelihood is
  \<open>-inf\<close> the driver returns \<open>l2_term = 0\<close> and a zero gradient buffer.
\<close>

theorem l2_term_for_every_driver_counterexample:
  "l2_regularize demo_opts \<noteq> Fin 0
   \<and> \<not> norm_regularize demo_opts
   \<and> fmul (fmul (Fin (- (1 / 2))) (fmul (weight (demo_supervision\<lparr>e2e := True\<rparr>))
                                         (l2_regularize demo_opts)))
          (squared_frobenius_norm demo_X) = Fin (- 3)
   \<and> map_option l2_term
        (ComputeChainObjfAndDeriv demo_opts (demo_cmp\<lparr>gen_Forward := NInf\<rparr>)
           (demo_supervision\<lparr>e2e := True\<rparr>) demo_X (Some demo_buffer) None)
      = Some (Fin 0)
   \<and> map_option nnet_output_deriv
        (ComputeChainObjfAndDeriv demo_opts (demo_cmp\<lparr>gen_Forward := NInf\<rparr>)
           (demo_supervision\<lparr>e2e := True\<rparr>) demo_X (Some demo_buffer) None)
      = Some (Some (SetZero demo_buffer))"
proof -
  have run: "E2e_compute (demo_cmp\<lparr>gen_Forward := NInf\<rparr>) (demo_supervision\<lparr>e2e := True\<rparr>)
               demo_X (Some demo_buffer) None
       = Some \<lparr>st_objf = NInf, st_weight = Fin 4, st_denominator_ok = True,
               st_numerator_ok = False,
               st_deriv = Some (demo_buffer\<lparr>elem := (\<lambda>i j. Fin (- 1))\<rparr>),
               st_xent = None\<rparr>"
    by (simp add: E2e_compute_def demo_defs denominator_backward_def SetZero_def fsub_def
          compute_weight_def int32_to_float_def)
  have vals: "l2_regularize demo_opts = Fin (1 / 10)" "\<not> norm_regularize demo_opts"
     "weight (demo_supervision\<lparr>e2e := True\<rparr>) = Fin 2" "e2e (demo_supervision\<lparr>e2e := True\<rparr>)"
    by (simp_all add: demo_defs)
  show ?thesis
    by (simp add: ComputeChainObjfAndDeriv_def ComputeChainObjfAndDerivE2e_def run vals
          failure_block_e2e_def l2_block_e2e_def squared_frobenius_norm_demo_X SetZero_def)
qed

text \<open>
  C7. In ComputeChainSmbrObjfAndDeriv with \<open>exclude_silence\<close> set and silence indices
  that hold \<open>-1\<close> at the silence columns and \<open>i\<close> at every other column \<open>i\<close>, the
  posterior matrix given to the SMBR denominator computation has the size of the
  numerator posteriors, zero in every silence column and the numerator posterior in
  every other column.
\<close>

theorem exclude_silence_zeroes_silence_columns:
  assumes "exclude_silence opts" "length idx = NumCols X"
    and "\<forall>c<length idx. idx ! c = - 1 \<or> idx ! c = int c"
  shows "\<exists>A. Smbr_silence opts X (Some idx) (numerator_posteriors cmp X) = Some A
     \<and> NumRows A = NumRows X \<and> NumCols A = NumCols X
     \<and> (\<forall>r c. c < NumCols X \<longrightarrow>
           elem A r c = (if idx ! c = - 1 then Fin 0
                         else elem (numerator_posteriors cmp X) r c))
     \<and> (deriv_fits X deriv \<and> deriv_fits X xent \<longrightarrow>
          (\<exists>d1 x1. Smbr_compute opts cmp supervision X deriv xent (Some idx)
             = Some (Smbr_denominator opts cmp supervision
                       (fmul (mmi_factor opts) (num_Forward cmp)) A d1 x1)))"
proof -
  let ?P = "numerator_posteriors cmp X"
  have dims: "NumRows ?P = NumRows X" "NumCols ?P = NumCols X"
    by (simp_all add: numerator_posteriors_def Resize_def)
  have range: "list_all (\<lambda>i. i < int (NumCols X)) idx"
    unfolding list_all_length
  proof (intro allI impI)
    fix n assume "n < length idx"
    then show "idx ! n < int (NumCols X)"
      using assms(2,3) by (auto dest!: spec[where x = n])
  qed
  have keep: "\<forall>c<NumCols X. idx ! c = - 1 \<or> idx ! c = int c"
    using assms(2,3) by simp
  have neg: "(idx ! c < 0) = (idx ! c = - 1)" if "c < NumCols X" for c
    using keep that by auto
  define A where "A = ?P\<lparr>elem := (\<lambda>r. CopyCols_row idx (NumCols X) (elem ?P r))\<rparr>"
  have run: "Smbr_silence opts X (Some idx) ?P = Some A"
    using assms(1,2) range by (simp add: Smbr_silence_def CopyCols_self_def dims A_def)
  have cols: "elem A r c = (if idx ! c = - 1 then Fin 0 else elem ?P r c)"
    if "c < NumCols X" for r c
    using that by (simp add: A_def CopyCols_row_keep_or_zero[OF keep] neg)
  have fits: "sil_fits opts X (Some idx)"
    using assms(2) range by (simp add: sil_fits_def)
  have drv: "\<exists>d1 x1. Smbr_compute opts cmp supervision X deriv xent (Some idx)
             = Some (Smbr_denominator opts cmp supervision
                       (fmul (mmi_factor opts) (num_Forward cmp)) A d1 x1)"
    if "deriv_fits X deriv \<and> deriv_fits X xent"
    using Smbr_compute_total[of X deriv xent opts "Some idx" cmp supervision] that fits run
    by auto
  show ?thesis
    using run cols drv by (auto simp: A_def dims)
qed

theorem exclude_silence_zeroes_silence_columns_witness:
  "exclude_silence demo_opts \<and> length [- 1, 1 :: int] = NumCols demo_X
   \<and> map_option (\<lambda>A. (elem A 0 0, elem A 0 1, elem A 1 0, elem A 1 1))
        (Smbr_silence demo_opts demo_X (Some [- 1, 1]) (numerator_posteriors demo_cmp demo_X))
      = Some (Fin 0, Fin (1 / 2), Fin 0, Fin (1 / 2))
   \<and> elem (numerator_posteriors demo_cmp demo_X) 0 0 = Fin (3 / 2)"
proof -
  have h: "exclude_silence demo_opts" "length [- 1, 1 :: int] = NumCols demo_X"
    by (simp_all add: demo_defs)
  have idx: "\<forall>c<length [- 1, 1 :: int]. [- 1, 1 :: int] ! c = - 1 \<or> [- 1, 1] ! c = int c"
    by (auto simp: less_Suc_eq)
  obtain A where A: "Smbr_silence demo_opts demo_X (Some [- 1, 1])
                        (numerator_posteriors demo_cmp demo_X) = Some A"
    and cols: "\<forall>r c. c < NumCols demo_X \<longrightarrow>
           elem A r c = (if [- 1, 1 :: int] ! c = - 1 then Fin 0
                         else elem (numerator_posteriors demo_cmp demo_X) r c)"
    using exclude_silence_zeroes_silence_columns[OF h idx, of demo_cmp] by blast
  have P: "elem (numerator_posteriors demo_cmp demo_X) r c
             = (if c = 0 then Fin (3 / 2) else Fin (1 / 2))" for r c
    by (simp add: numerator_posteriors_def Resize_def demo_defs)
  have n: "NumCols demo_X = 2"
    by (simp add: demo_defs)
  have "elem A 0 0 = Fin 0" "elem A 0 1 = Fin (1 / 2)" "elem A 1 0 = Fin 0"
       "elem A 1 1 = Fin (1 / 2)"
    using cols by (simp_all add: n P)
  then show ?thesis
    using h A by (simp add: P)
qed

text \<open>
  C8. When the cross-entropy buffer is provided and no failure occurs (the
  denominator's \<open>Backward\<close> returned true, on the e2e path the generic numerator's
  \<open>Forward\<close> was finite and its \<open>Backward\<close> returned true, and the objective is in the
  range of a float), ComputeChainObjfAndDeriv returns in it what the numerator's
  \<open>Backward\<close> writes into a zeroed matrix of the size of the scores and nothing else.
  So when that \<open>Backward\<close> adds \<open>supervision.weight\<close> times the numerator posterior to
  its buffer, the cross-entropy buffer is returned with exactly \<open>supervision.weight\<close>
  times the posterior: neither the denominator's derivative nor the L2 derivative is
  in it.
\<close>

theorem xent_output_deriv_is_numerator_posteriors:
  fixes supervision :: Supervision and cmp :: computations and X :: CuMatrix
    and deriv :: "CuMatrix option"
  defines "Z \<equiv> Resize (NumRows X) (NumCols X)"
      and "den_ok \<equiv> (case deriv of None \<Rightarrow> True
                      | Some D \<Rightarrow> fst (den_Backward cmp (fneg (weight supervision))
                                                    (SetZero D)))"
  defines "written \<equiv> (if e2e supervision then snd (gen_Backward cmp Z)
                       else num_Backward cmp Z)"
  assumes fits: "deriv_fits X deriv"
  shows "\<exists>r. ComputeChainObjfAndDeriv opts cmp supervision X deriv (Some Xe) = Some r
     \<and> (in_float_range (fmul (weight supervision) (den_Forward cmp))
        \<and> in_float_range
             (fsub (if e2e supervision then gen_Forward cmp else num_Forward cmp)
                   (fmul (weight supervision) (den_Forward cmp)))
        \<and> den_ok
        \<and> (e2e supervision \<longrightarrow> is_finite (gen_Forward cmp) \<and> fst (gen_Backward cmp Z)) \<longrightarrow>
          xent_output_deriv r = Some (Z\<lparr>elem := written\<rparr>)
        \<and> ((\<forall>i j. written i j = fadd (elem Z i j) (fmul (weight supervision) (post i j))) \<longrightarrow>
             xent_output_deriv r
               = Some (Z\<lparr>elem := (\<lambda>i j. fmul (weight supervision) (post i j))\<rparr>)))"
proof (cases "e2e supervision")
  case True
  obtain s where s: "E2e_compute cmp supervision X deriv (Some Xe) = Some s"
     "st_objf s = fsub (gen_Forward cmp) (fmul (weight supervision) (den_Forward cmp))"
     "deriv_fits X (st_deriv s)"
     "st_xent s = map_option (\<lambda>_. if is_finite (gen_Forward cmp)
                                     then generic_numerator_posteriors cmp X
                                     else Resize (NumRows X) (NumCols X)) (Some Xe)"
     "st_denominator_ok s = fst (denominator_backward cmp (fneg (weight supervision))
                                                       (map_option SetZero deriv))"
    using E2e_compute_total[OF fits, of cmp supervision "Some Xe"] by blast
  have flags: "st_denominator_ok s = den_ok"
     "st_numerator_ok s = (is_finite (gen_Forward cmp) \<and> fst (gen_Backward cmp Z))"
    using E2e_compute_numerator_ok[OF fits s(1)]
    by (simp_all add: s(5) denominator_backward_ok den_ok_def Z_def)
  have zero: "elem Z i j = Fin 0" for i j
    by (simp add: Z_def Resize_def)
  have ext: "(\<forall>i j. written i j = fmul (weight supervision) (post i j))
               \<Longrightarrow> written = (\<lambda>i j. fmul (weight supervision) (post i j))"
    by (simp add: fun_eq_iff)
  have "ComputeChainObjfAndDeriv opts cmp supervision X deriv (Some Xe)
          = l2_block_e2e opts supervision X (failure_block_e2e s)"
    using True s(1) by (simp add: ComputeChainObjfAndDeriv_def ComputeChainObjfAndDerivE2e_def)
  then show ?thesis
    using True s(2,3,4) flags ext
    by (auto simp: l2_block_e2e_total failure_block_e2e_ok generic_numerator_posteriors_def
          Z_def[symmetric] written_def zero dest: in_float_range_finite simp del: fsub_self)
next
  case False
  obtain s where s: "Chain_compute cmp supervision X deriv (Some Xe) = Some s"
     "st_objf s = fsub (num_Forward cmp) (fmul (weight supervision) (den_Forward cmp))"
     "deriv_fits X (st_deriv s)"
     "st_xent s = map_option (\<lambda>_. numerator_posteriors cmp X) (Some Xe)"
     "st_denominator_ok s = fst (denominator_backward cmp (fneg (weight supervision))
                                                       (map_option SetZero deriv))"
    using Chain_compute_total[OF fits, of cmp supervision "Some Xe"] by blast
  have flags: "st_denominator_ok s = den_ok"
    by (simp add: s(5) denominator_backward_ok den_ok_def)
  have zero: "elem Z i j = Fin 0" for i j
    by (simp add: Z_def Resize_def)
  have ext: "(\<forall>i j. written i j = fmul (weight supervision) (post i j))
               \<Longrightarrow> written = (\<lambda>i j. fmul (weight supervision) (post i j))"
    by (simp add: fun_eq_iff)
  have "ComputeChainObjfAndDeriv opts cmp supervision X deriv (Some Xe)
          = l2_block opts supervision X (failure_block s)"
    using False s(1) by (simp add: ComputeChainObjfAndDeriv_def)
  then show ?thesis
    using False s(2,3,4) flags ext
    by (auto simp: l2_block_total failure_block_ok numerator_posteriors_def
          Z_def[symmetric] written_def zero dest: in_float_range_finite simp del: fsub_self)
qed

theorem xent_output_deriv_is_numerator_posteriors_witness:
  "deriv_fits demo_X (Some demo_buffer)
   \<and> map_option xent_output_deriv (ComputeChainObjfAndDeriv demo_opts demo_cmp
        demo_supervision demo_X (Some demo_buffer) (Some demo_buffer))
      = Some (Some \<lparr>NumRows = 2, NumCols = 2,
                    elem = (\<lambda>i j. fmul (Fin 2) (if j = 0 then Fin (3 / 4) else Fin (1 / 4)))\<rparr>)
   \<and> map_option xent_output_deriv (ComputeChainObjfAndDeriv demo_opts demo_cmp
        (demo_supervision\<lparr>e2e := True\<rparr>) demo_X (Some demo_buffer) (Some demo_buffer))
      = Some (Some \<lparr>NumRows = 2, NumCols = 2,
                    elem = (\<lambda>i j. fmul (Fin 2) (if j = 1 then Fin 1 else Fin 0))\<rparr>)"
proof -
  note fits = demo_fits(1)
  note run = xent_output_deriv_is_numerator_posteriors[OF fits, where opts = demo_opts
        and cmp = demo_cmp and Xe = demo_buffer]
  have a: "map_option xent_output_deriv (ComputeChainObjfAndDeriv demo_opts demo_cmp
        demo_supervision demo_X (Some demo_buffer) (Some demo_buffer))
      = Some (Some \<lparr>NumRows = 2, NumCols = 2,
                    elem = (\<lambda>i j. fmul (Fin 2) (if j = 0 then Fin (3 / 4) else Fin (1 / 4)))\<rparr>)"
    using run[where supervision = demo_supervision
              and post = "\<lambda>i j. if j = 0 then Fin (3 / 4) else Fin (1 / 4)"]
    by (auto simp: demo_defs in_float_range_def FLT_MAX_def fsub_def Resize_def)
  have b: "map_option xent_output_deriv (ComputeChainObjfAndDeriv demo_opts demo_cmp
        (demo_supervision\<lparr>e2e := True\<rparr>) demo_X (Some demo_buffer) (Some demo_buffer))
      = Some (Some \<lparr>NumRows = 2, NumCols = 2,
                    elem = (\<lambda>i j. fmul (Fin 2) (if j = 1 then Fin 1 else Fin 0))\<rparr>)"
    using run[where supervision = "demo_supervision\<lparr>e2e := True\<rparr>"
              and post = "\<lambda>i j. if j = 1 then Fin 1 else Fin 0"]
    by (auto simp: demo_defs in_float_range_def FLT_MAX_def fsub_def Resize_def is_finite_def)
  show ?thesis
    using fits a b by simp
qed

text \<open>
  C9. In ComputeChainObjfAndDerivE2e, when the generic numerator failed, the
  regularizer block is skipped: \<open>l2_term\<close> is zero and both buffers are returned zero,
  whatever \<open>opts.l2_regularize\<close> is. Outside the e2e path, after a failure and with
  \<open>opts.l2_regularize\<close> nonzero, \<open>l2_term\<close> is the L2 penalty and the gradient buffer
  is returned holding the L2 derivative, added after the failure block zeroed it.
\<close>

theorem e2e_numerator_failure_skips_l2:
  assumes "deriv_fits X deriv"
  shows "(\<exists>s r. E2e_compute cmp supervision X deriv xent = Some s
            \<and> ComputeChainObjfAndDerivE2e opts cmp supervision X deriv xent = Some r
            \<and> (\<not> st_numerator_ok s \<longrightarrow>
                 l2_term r = Fin 0
               \<and> nnet_output_deriv r = map_option SetZero deriv
               \<and> xent_output_deriv r = map_option (\<lambda>_. Resize (NumRows X) (NumCols X)) xent))
       \<and> (\<not> e2e supervision \<longrightarrow>
           (\<exists>s r. Chain_compute cmp supervision X deriv xent = Some s
              \<and> ComputeChainObjfAndDeriv opts cmp supervision X deriv xent = Some r
              \<and> ((\<not> is_finite (st_objf s) \<or> \<not> st_denominator_ok s)
                   \<and> l2_regularize opts \<noteq> Fin 0 \<longrightarrow>
                   l2_term r = fmul (fmul (Fin (- (1 / 2)))
                                       (fmul (weight supervision) (l2_regularize opts)))
                                    (squared_frobenius_norm X)
                 \<and> nnet_output_deriv r =
                     map_option (\<lambda>D. D\<lparr>elem := (\<lambda>i j.
                        fmul (fmul (Fin (- 1)) (fmul (weight supervision) (l2_regularize opts)))
                             (elem X i j))\<rparr>) deriv)))"
proof (intro conjI impI)
  obtain s where s: "E2e_compute cmp supervision X deriv xent = Some s"
     "map_option SetZero (st_deriv s) = map_option SetZero deriv"
     "deriv_fits X (st_deriv s)"
     "st_xent s = map_option (\<lambda>_. if is_finite (gen_Forward cmp)
                                     then generic_numerator_posteriors cmp X
                                     else Resize (NumRows X) (NumCols X)) xent"
    using E2e_compute_total[OF assms, of cmp supervision xent] by blast
  have zx: "map_option SetZero (st_xent s) = map_option (\<lambda>_. Resize (NumRows X) (NumCols X)) xent"
    by (cases xent) (simp_all add: s(4))
  show "\<exists>s r. E2e_compute cmp supervision X deriv xent = Some s
            \<and> ComputeChainObjfAndDerivE2e opts cmp supervision X deriv xent = Some r
            \<and> (\<not> st_numerator_ok s \<longrightarrow>
                 l2_term r = Fin 0
               \<and> nnet_output_deriv r = map_option SetZero deriv
               \<and> xent_output_deriv r = map_option (\<lambda>_. Resize (NumRows X) (NumCols X)) xent)"
    using s(1,3)
    by (auto simp: ComputeChainObjfAndDerivE2e_def l2_block_e2e_total
          failure_block_e2e_failed s(2) zx)
next
  assume std: "\<not> e2e supervision"
  obtain s where s: "Chain_compute cmp supervision X deriv xent = Some s"
     "map_option SetZero (st_deriv s) = map_option SetZero deriv"
     "deriv_fits X (st_deriv s)"
    using Chain_compute_total[OF assms, of cmp supervision xent] by blast
  show "\<exists>s r. Chain_compute cmp supervision X deriv xent = Some s
              \<and> ComputeChainObjfAndDeriv opts cmp supervision X deriv xent = Some r
              \<and> ((\<not> is_finite (st_objf s) \<or> \<not> st_denominator_ok s)
                   \<and> l2_regularize opts \<noteq> Fin 0 \<longrightarrow>
                   l2_term r = fmul (fmul (Fin (- (1 / 2)))
                                       (fmul (weight supervision) (l2_regularize opts)))
                                    (squared_frobenius_norm X)
                 \<and> nnet_output_deriv r =
                     map_option (\<lambda>D. D\<lparr>elem := (\<lambda>i j.
                        fmul (fmul (Fin (- 1)) (fmul (weight supervision) (l2_regularize opts)))
                             (elem X i j))\<rparr>) deriv)"
    using std s(1,3)
    by (auto simp: ComputeChainObjfAndDeriv_def l2_block_total failure_block_failed s(2)
          SetZero_plus_scaled)
qed

theorem e2e_numerator_failure_skips_l2_witness:
  "deriv_fits demo_X (Some demo_buffer)
   \<and> l2_regularize demo_opts = Fin (1 / 10)
   \<and> map_option l2_term (ComputeChainObjfAndDerivE2e demo_opts
        (demo_cmp\<lparr>gen_Backward := (\<lambda>D. (False, elem D))\<rparr>) demo_supervision demo_X
        (Some demo_buffer) (Some demo_buffer)) = Some (Fin 0)
   \<and> map_option nnet_output_deriv (ComputeChainObjfAndDerivE2e demo_opts
        (demo_cmp\<lparr>gen_Backward := (\<lambda>D. (False, elem D))\<rparr>) demo_supervision demo_X
        (Some demo_buffer) (Some demo_buffer)) = Some (Some (Resize 2 2))
   \<and> map_option l2_term (ComputeChainObjfAndDeriv demo_opts
        (demo_cmp\<lparr>den_Forward := PInf\<rparr>) demo_supervision demo_X
        (Some demo_buffer) (Some demo_buffer)) = Some (Fin (- 3))
   \<and> map_option nnet_output_deriv (ComputeChainObjfAndDeriv demo_opts
        (demo_cmp\<lparr>den_Forward := PInf\<rparr>) demo_supervision demo_X
        (Some demo_buffer) (Some demo_buffer))
      = Some (Some \<lparr>NumRows = 2, NumCols = 2,
                    elem = (\<lambda>i j. Fin (- (1 / 5) * real (2 * i + j + 1)))\<rparr>)"
proof -
  have fits: "deriv_fits demo_X (Some demo_buffer)"
    by (rule demo_fits)
  have vals: "l2_regularize demo_opts = Fin (1 / 10)" "\<not> e2e demo_supervision"
     "weight demo_supervision = Fin 2"
    by (simp_all add: demo_defs)
  obtain s r where
        s: "E2e_compute (demo_cmp\<lparr>gen_Backward := (\<lambda>D. (False, elem D))\<rparr>) demo_supervision
              demo_X (Some demo_buffer) (Some demo_buffer) = Some s"
    and r: "ComputeChainObjfAndDerivE2e demo_opts
              (demo_cmp\<lparr>gen_Backward := (\<lambda>D. (False, elem D))\<rparr>) demo_supervision demo_X
              (Some demo_buffer) (Some demo_buffer) = Some r"
    and skip: "\<not> st_numerator_ok s \<longrightarrow>
                 l2_term r = Fin 0
               \<and> nnet_output_deriv r = map_option SetZero (Some demo_buffer)"
    using e2e_numerator_failure_skips_l2[OF fits,
            of "demo_cmp\<lparr>gen_Backward := (\<lambda>D. (False, elem D))\<rparr>" demo_supervision
               "Some demo_buffer" demo_opts]
    by blast
  obtain s' r' where
        s': "Chain_compute (demo_cmp\<lparr>den_Forward := PInf\<rparr>) demo_supervision
              demo_X (Some demo_buffer) (Some demo_buffer) = Some s'"
    and r': "ComputeChainObjfAndDeriv demo_opts (demo_cmp\<lparr>den_Forward := PInf\<rparr>)
              demo_supervision demo_X (Some demo_buffer) (Some demo_buffer) = Some r'"
    and l2: "(\<not> is_finite (st_objf s') \<or> \<not> st_denominator_ok s')
                   \<and> l2_regularize demo_opts \<noteq> Fin 0 \<longrightarrow>
                   l2_term r' = fmul (fmul (Fin (- (1 / 2)))
                                       (fmul (weight demo_supervision) (l2_regularize demo_opts)))
                                    (squared_frobenius_norm demo_X)
                 \<and> nnet_output_deriv r' =
                     map_option (\<lambda>D. D\<lparr>elem := (\<lambda>i j.
                        fmul (fmul (Fin (- 1)) (fmul (weight demo_supervision)
                                                     (l2_regularize demo_opts)))
                             (elem demo_X i j))\<rparr>) (Some demo_buffer)"
    using e2e_numerator_failure_skips_l2[OF fits,
            of "demo_cmp\<lparr>den_Forward := PInf\<rparr>" demo_supervision
               "Some demo_buffer" demo_opts] vals(2)
    by blast
  have "\<not> st_numerator_ok s"
    using s
    by (auto simp: E2e_compute_def demo_defs denominator_backward_def AddMat_def same_dim_def
         Resize_def SetZero_def fsub_def)
  then have e: "l2_term r = Fin 0" "nnet_output_deriv r = Some (Resize 2 2)"
    using skip by (simp_all add: SetZero_def Resize_def demo_buffer_def)
  have "\<not> is_finite (st_objf s')"
    using s'
    by (auto simp: Chain_compute_def demo_defs denominator_backward_def AddMat_def same_dim_def
         Resize_def SetZero_def fsub_def is_finite_def)
  then have "l2_term r' = fmul (fmul (Fin (- (1 / 2)))
                                       (fmul (weight demo_supervision) (l2_regularize demo_opts)))
                                    (squared_frobenius_norm demo_X)"
       "nnet_output_deriv r' =
                     map_option (\<lambda>D. D\<lparr>elem := (\<lambda>i j.
                        fmul (fmul (Fin (- 1)) (fmul (weight demo_supervision)
                                                     (l2_regularize demo_opts)))
                             (elem demo_X i j))\<rparr>) (Some demo_buffer)"
    using l2 by (simp_all add: vals)
  then have n: "l2_term r' = Fin (- 3)"
       "nnet_output_deriv r' = Some \<lparr>NumRows = 2, NumCols = 2,
                    elem = (\<lambda>i j. Fin (- (1 / 5) * real (2 * i + j + 1)))\<rparr>"
    by (simp add: vals squared_frobenius_norm_demo_X, simp add: vals demo_X_def demo_buffer_def)
  show ?thesis
    using fits vals(1) r r' e n by simp
qed

text \<open>
  C10. In ComputeChainSmbrObjfAndDeriv the silence options change only the accuracy
  posteriors given to the SMBR denominator computation. The numerator block, which
  copies the numerator posteriors into the cross-entropy buffer and, scaled by
  \<open>opts.mmi_factor\<close>, into the gradient buffer, does not read the silence options or
  indices; the buffers handed to the denominator block hold the unmasked posteriors,
  and without failure the cross-entropy buffer is returned with them.
\<close>

theorem silence_masking_leaves_copies_unmasked:
  assumes "deriv_fits X deriv" "deriv_fits X xent" "sil_fits opts X sil_indices"
  shows "\<exists>A d1 x1 s r.
       Smbr_numerator opts cmp X deriv xent
         = Some (fmul (mmi_factor opts) (num_Forward cmp), numerator_posteriors cmp X, d1, x1)
     \<and> x1 = map_option (\<lambda>Xe. Xe\<lparr>elem := elem (numerator_posteriors cmp X)\<rparr>) xent
     \<and> d1 = (if mmi_factor opts = Fin 0 then deriv
             else map_option (\<lambda>D. Scale (D\<lparr>elem := elem (numerator_posteriors cmp X)\<rparr>)
                                         (mmi_factor opts)) deriv)
     \<and> Smbr_numerator (opts\<lparr>exclude_silence := es, one_silence_class := osc\<rparr>) cmp X deriv xent
         = Smbr_numerator opts cmp X deriv xent
     \<and> Smbr_silence opts X sil_indices (numerator_posteriors cmp X) = Some A
     \<and> Smbr_compute opts cmp supervision X deriv xent sil_indices = Some s
     \<and> s = Smbr_denominator opts cmp supervision (fmul (mmi_factor opts) (num_Forward cmp))
              A d1 x1
     \<and> ComputeChainSmbrObjfAndDeriv opts cmp supervision X deriv xent sil_indices = Some r
     \<and> (is_finite (fadd (st_objf s) (st_mmi_objf s)) \<and> st_denominator_ok s \<longrightarrow>
          xent_output_deriv r = x1)"
proof -
  obtain A d1 where A: "Smbr_silence opts X sil_indices (numerator_posteriors cmp X) = Some A"
     "d1 = (if mmi_factor opts = Fin 0 then deriv
             else map_option (\<lambda>D. Scale (D\<lparr>elem := elem (numerator_posteriors cmp X)\<rparr>)
                                         (mmi_factor opts)) deriv)"
     "deriv_fits X d1"
     "Smbr_compute opts cmp supervision X deriv xent sil_indices =
         Some (Smbr_denominator opts cmp supervision
                 (fmul (mmi_factor opts) (num_Forward cmp)) A d1
                 (map_option (\<lambda>Xe. Xe\<lparr>elem := elem (numerator_posteriors cmp X)\<rparr>) xent))"
    using Smbr_compute_total[OF assms, of cmp supervision] by blast
  have sel: "mmi_factor (opts\<lparr>exclude_silence := es, one_silence_class := osc\<rparr>)
               = mmi_factor opts"
    by simp
  have frame: "Smbr_numerator (opts\<lparr>exclude_silence := es, one_silence_class := osc\<rparr>) cmp X
                 deriv xent = Smbr_numerator opts cmp X deriv xent"
    unfolding Smbr_numerator_def sel by (rule refl)
  show ?thesis
    using A(1,3)
    by (auto simp: A(2,4) frame Smbr_numerator_total[OF assms(1,2)]
          ComputeChainSmbrObjfAndDeriv_def l2_block_smbr_total failure_block_smbr_ok)
qed

theorem silence_masking_leaves_copies_unmasked_witness:
  "deriv_fits demo_X (Some demo_buffer)
   \<and> sil_fits demo_opts demo_X (Some [- 1, 1])
   \<and> map_option (\<lambda>A. (elem A 0 0, elem A 0 1))
        (Smbr_silence demo_opts demo_X (Some [- 1, 1]) (numerator_posteriors demo_cmp demo_X))
      = Some (Fin 0, Fin (1 / 2))
   \<and> map_option xent_output_deriv (ComputeChainSmbrObjfAndDeriv demo_opts demo_cmp
        demo_supervision demo_X (Some demo_buffer) (Some demo_buffer) (Some [- 1, 1]))
      = Some (Some \<lparr>NumRows = 2, NumCols = 2,
                    elem = (\<lambda>i j. if j = 0 then Fin (3 / 2) else Fin (1 / 2))\<rparr>)"
proof -
  have fits: "deriv_fits demo_X (Some demo_buffer)"
    and sil: "sil_fits demo_opts demo_X (Some [- 1, 1])"
    by (rule demo_fits)+
  obtain A d1 x1 s r where
        x1: "x1 = map_option (\<lambda>Xe. Xe\<lparr>elem := elem (numerator_posteriors demo_cmp demo_X)\<rparr>)
                    (Some demo_buffer)"
    and A: "Smbr_silence demo_opts demo_X (Some [- 1, 1]) (numerator_posteriors demo_cmp demo_X)
              = Some A"
    and s: "s = Smbr_denominator demo_opts demo_cmp demo_supervision
                  (fmul (mmi_factor demo_opts) (num_Forward demo_cmp)) A d1 x1"
    and d1: "d1 = (if mmi_factor demo_opts = Fin 0 then Some demo_buffer
             else map_option (\<lambda>D. Scale (D\<lparr>elem := elem (numerator_posteriors demo_cmp demo_X)\<rparr>)
                                         (mmi_factor demo_opts)) (Some demo_buffer))"
    and r: "ComputeChainSmbrObjfAndDeriv demo_opts demo_cmp demo_supervision demo_X
              (Some demo_buffer) (Some demo_buffer) (Some [- 1, 1]) = Some r"
    and ok: "is_finite (fadd (st_objf s) (st_mmi_objf s)) \<and> st_denominator_ok s \<longrightarrow>
          xent_output_deriv r = x1"
    using silence_masking_leaves_copies_unmasked[OF fits fits sil,
            where cmp = demo_cmp and supervision = demo_supervision and es = False
              and osc = False]
    by blast
  have P: "elem (numerator_posteriors demo_cmp demo_X) i j
             = (if j = 0 then Fin (3 / 2) else Fin (1 / 2))" for i j
    by (simp add: numerator_posteriors_def Resize_def demo_defs)
  have idx: "\<forall>c<2. [- 1, 1 :: int] ! c = - 1 \<or> [- 1, 1] ! c = int c"
    by (auto simp: less_Suc_eq eval_nat_numeral)
  have Ael: "elem A i j = (if j < 2 \<and> [- 1, 1 :: int] ! j < 0 then Fin 0
                           else elem (numerator_posteriors demo_cmp demo_X) i j)" for i j
    using A
    by (auto simp: Smbr_silence_def CopyCols_self_def demo_opts_def numerator_posteriors_def
          Resize_def demo_X_def CopyCols_row_keep_or_zero[OF idx])
  have A0: "elem A 0 0 = Fin 0" "elem A (Suc 0) 0 = Fin 0" "elem A 0 1 = Fin (1 / 2)"
    by (simp_all add: Ael P)
  have "is_finite (fadd (st_objf s) (st_mmi_objf s)) \<and> st_denominator_ok s"
    by (simp add: s d1) (simp add: Smbr_denominator_def demo_defs A0 is_finite_def Let_def)
  then have "xent_output_deriv r = x1"
    using ok by simp
  then have "xent_output_deriv r = Some \<lparr>NumRows = 2, NumCols = 2,
                    elem = (\<lambda>i j. if j = 0 then Fin (3 / 2) else Fin (1 / 2))\<rparr>"
    by (simp add: x1 P fun_eq_iff demo_buffer_def)
  then show ?thesis
    using fits sil r A A0 by simp
qed

end
